theory Spec2Isabelle
  imports Complex_Main
begin

section \<open>Values, exceptions and the client library's objects\<close>

text \<open>
  The request body, the responses of the remote service and the result of the handler
  are JSON-like Python values. A finite float carries the rational number it denotes;
  \<open>PNaN\<close>, \<open>PInf\<close> and \<open>PNegInf\<close> are the three floats that are not finite, which
  Python's JSON parser accepts (\<open>NaN\<close>, \<open>Infinity\<close>, \<open>-Infinity\<close>) and so a request body or
  an answer of the service may hold. A dict is an association list in insertion order; a
  string is its UTF-8 bytes.
\<close>

datatype pyval =
    PNone
  | PBool bool
  | PInt int
  | PFloat rat
  | PNaN
  | PInf
  | PNegInf
  | PStr string
  | PList "pyval list"
  | PDict "(string \<times> pyval) list"

text \<open>
  An exception is an instance of a subclass of Python's \<open>Exception\<close>: its class name
  and the text \<open>str(e)\<close> gives.
\<close>

datatype exn = Exception string string

fun str_exn :: "exn \<Rightarrow> string" where
  "str_exn (Exception cls msg) = msg"

text \<open>
  The Earth Engine client builds its objects (dates, images, collections, geometries)
  on the client side as expressions: an object is the library function that made it,
  applied to its arguments. \<open>Const\<close> is a Python constant given as an argument,
  \<open>Kw\<close> a keyword argument, \<open>Var\<close> the placeholder the library passes to a mapped
  function and \<open>Fn\<close> the mapped function's body. A method's receiver is its first
  argument.
\<close>

datatype ee_fn =
    Date_fromYMD | Date_advance | Date_millis
  | ImageCollection_new | IC_filterBounds | IC_filterDate | IC_select | IC_filter
  | IC_mode | IC_median
  | Image_clip | Image_unmask | Image_set | Image_visualize | Image_neq | Image_selfMask
  | Image_reduceRegion
  | Filter_lt | Reducer_frequencyHistogram
  | List_sequence | List_map | Number_new
  | Geometry_Rectangle | Geometry_bounds

datatype ee =
    Const pyval
  | Var
  | Kw string ee
  | Fn ee
  | Call ee_fn "ee list"

datatype credentials = Credentials pyval "string list"

text \<open>
  What the process does to the outside: reads of the environment, calls of the client
  library and requests to the remote service, oldest first.
\<close>

datatype event =
    EnvGet string
  | Initialize credentials
  | ClientCall ee
  | GetInfo ee
  | GetThumbURL ee pyval
  | GetVideoThumbURL ee pyval

record world =
  environ :: "string \<Rightarrow> string option"
  ee_initialized :: bool
  trace :: "event list"

text \<open>
  The libraries and the remote service are parameters: what \<open>int\<close> makes of a string,
  what \<open>json.loads\<close> and the credential constructor return, the exception \<open>json.dumps\<close>
  raises for a value it refuses, and, for every call of the client library and every
  request, whether it raises and what it answers. The answers may depend on everything
  that happened before (the trace).
\<close>

record service =
  int_of_str :: "string \<Rightarrow> exn + int"
  json_loads :: "string \<Rightarrow> exn + pyval"
  json_error :: "pyval \<Rightarrow> exn"
  from_service_account_info :: "pyval \<Rightarrow> string list \<Rightarrow> exn option"
  ee_Initialize :: "event list \<Rightarrow> credentials \<Rightarrow> exn option"
  client_raises :: "event list \<Rightarrow> ee \<Rightarrow> exn option"
  getInfo :: "event list \<Rightarrow> ee \<Rightarrow> exn + pyval"
  getThumbURL :: "event list \<Rightarrow> ee \<Rightarrow> pyval \<Rightarrow> exn + string"
  getVideoThumbURL :: "event list \<Rightarrow> ee \<Rightarrow> pyval \<Rightarrow> exn + string"

section \<open>Statements that may raise\<close>

type_synonym 'a m = "world \<Rightarrow> (exn + 'a) \<times> world"

definition return :: "'a \<Rightarrow> 'a m" where
  "return x = (\<lambda>w. (Inr x, w))"

definition raise :: "exn \<Rightarrow> 'a m" where
  "raise e = (\<lambda>w. (Inl e, w))"

definition lift :: "exn + 'a \<Rightarrow> 'a m" where
  "lift r = (\<lambda>w. (r, w))"

definition mbind :: "'a m \<Rightarrow> ('a \<Rightarrow> 'b m) \<Rightarrow> 'b m" where
  "mbind m f = (\<lambda>w. case m w of (Inl e, w') \<Rightarrow> (Inl e, w') | (Inr x, w') \<Rightarrow> f x w')"

definition try_except :: "'a m \<Rightarrow> (exn \<Rightarrow> 'a m) \<Rightarrow> 'a m" where
  "try_except m h = (\<lambda>w. case m w of (Inl e, w') \<Rightarrow> h e w' | (Inr x, w') \<Rightarrow> (Inr x, w'))"

definition log :: "event \<Rightarrow> world \<Rightarrow> world" where
  "log ev w = w\<lparr>trace := trace w @ [ev]\<rparr>"

definition ee_call :: "service \<Rightarrow> ee_fn \<Rightarrow> ee list \<Rightarrow> ee m" where
  "ee_call svc f args = (\<lambda>w.
     case client_raises svc (trace w) (Call f args) of
       Some e \<Rightarrow> (Inl e, log (ClientCall (Call f args)) w)
     | None \<Rightarrow> (Inr (Call f args), log (ClientCall (Call f args)) w))"

definition get_info :: "service \<Rightarrow> ee \<Rightarrow> pyval m" where
  "get_info svc obj = (\<lambda>w. (getInfo svc (trace w) obj, log (GetInfo obj) w))"

definition get_thumb_url :: "service \<Rightarrow> ee \<Rightarrow> pyval \<Rightarrow> string m" where
  "get_thumb_url svc img params =
     (\<lambda>w. (getThumbURL svc (trace w) img params, log (GetThumbURL img params) w))"

definition get_video_thumb_url :: "service \<Rightarrow> ee \<Rightarrow> pyval \<Rightarrow> string m" where
  "get_video_thumb_url svc coll params =
     (\<lambda>w. (getVideoThumbURL svc (trace w) coll params, log (GetVideoThumbURL coll params) w))"

section \<open>Python built-ins the handler uses\<close>

fun truthy :: "pyval \<Rightarrow> bool" where
  "truthy PNone = False"
| "truthy (PBool b) = b"
| "truthy (PInt i) = (i \<noteq> 0)"
| "truthy (PFloat r) = (r \<noteq> 0)"
| "truthy PNaN = True"
| "truthy PInf = True"
| "truthy PNegInf = True"
| "truthy (PStr s) = (s \<noteq> [])"
| "truthy (PList xs) = (xs \<noteq> [])"
| "truthy (PDict kvs) = (kvs \<noteq> [])"

text \<open>\<open>isinstance(v, (list, tuple))\<close>: a JSON body holds no tuple.\<close>

fun is_list_or_tuple :: "pyval \<Rightarrow> bool" where
  "is_list_or_tuple (PList xs) = True"
| "is_list_or_tuple v = False"

text \<open>\<open>len(v)\<close>, used only behind the \<open>isinstance\<close> test.\<close>

fun py_len :: "pyval \<Rightarrow> nat" where
  "py_len (PList xs) = length xs"
| "py_len (PStr s) = length s"
| "py_len (PDict kvs) = length kvs"
| "py_len v = 0"

definition trunc :: "rat \<Rightarrow> int" where
  "trunc r = (if 0 \<le> r then \<lfloor>r\<rfloor> else \<lceil>r\<rceil>)"

fun type_name :: "pyval \<Rightarrow> string" where
  "type_name PNone = ''NoneType''"
| "type_name (PBool b) = ''bool''"
| "type_name (PInt i) = ''int''"
| "type_name (PFloat r) = ''float''"
| "type_name PNaN = ''float''"
| "type_name PInf = ''float''"
| "type_name PNegInf = ''float''"
| "type_name (PStr s) = ''str''"
| "type_name (PList xs) = ''list''"
| "type_name (PDict kvs) = ''dict''"

definition quoted :: "string \<Rightarrow> string" where
  "quoted s = [CHR 0x27] @ s @ [CHR 0x27]"

text \<open>
  \<open>int(v)\<close>: a bool is an int, a finite float is truncated towards zero, a float that is
  not finite is refused, a string is parsed.
\<close>

fun py_int :: "service \<Rightarrow> pyval \<Rightarrow> exn + int" where
  "py_int svc (PInt i) = Inr i"
| "py_int svc (PBool b) = Inr (if b then 1 else 0)"
| "py_int svc (PFloat r) = Inr (trunc r)"
| "py_int svc PNaN = Inl (Exception ''ValueError'' ''cannot convert float NaN to integer'')"
| "py_int svc PInf =
     Inl (Exception ''OverflowError'' ''cannot convert float infinity to integer'')"
| "py_int svc PNegInf =
     Inl (Exception ''OverflowError'' ''cannot convert float infinity to integer'')"
| "py_int svc (PStr s) = int_of_str svc s"
| "py_int svc v = Inl (Exception ''TypeError''
     (''int() argument must be a string, a bytes-like object or a real number, not ''
        @ quoted (type_name v)))"

text \<open>\<open>d.get(k, default)\<close> on the request body.\<close>

definition dict_get :: "(string \<Rightarrow> pyval option) \<Rightarrow> string \<Rightarrow> pyval \<Rightarrow> pyval" where
  "dict_get d k dflt = (case d k of None \<Rightarrow> dflt | Some v \<Rightarrow> v)"

text \<open>\<open>v[k]\<close> for a string key \<open>k\<close>.\<close>

fun py_getitem :: "pyval \<Rightarrow> string \<Rightarrow> exn + pyval" where
  "py_getitem (PDict kvs) k =
     (case map_of kvs k of
        None \<Rightarrow> Inl (Exception ''KeyError'' (quoted k))
      | Some v \<Rightarrow> Inr v)"
| "py_getitem (PList xs) k =
     Inl (Exception ''TypeError'' ''list indices must be integers or slices, not str'')"
| "py_getitem (PStr s) k =
     Inl (Exception ''TypeError'' ''string indices must be integers, not 'str'')"
| "py_getitem v k =
     Inl (Exception ''TypeError'' (quoted (type_name v) @ '' object is not subscriptable''))"

definition digit_char :: "nat \<Rightarrow> char" where
  "digit_char d = ''0123456789'' ! d"

function str_nat :: "nat \<Rightarrow> string" where
  "str_nat n = (if n < 10 then [digit_char n] else str_nat (n div 10) @ [digit_char (n mod 10)])"
  by pat_completeness auto
termination
  by (relation "measure id") auto

declare str_nat.simps [simp del]

definition str_int :: "int \<Rightarrow> string" where
  "str_int i = (if i < 0 then CHR ''-'' # str_nat (nat (- i)) else str_nat (nat i))"

section \<open>gee_client.py\<close>

definition YEARS :: "int list" where
  "YEARS = [2020, 2021, 2022, 2023, 2024]"

definition CLASS_PALETTE :: pyval where
  "CLASS_PALETTE = PList [PStr ''419bdf'', PStr ''397d49'', PStr ''88b053'', PStr ''7a87c6'',
     PStr ''e49635'', PStr ''dfc35a'', PStr ''c4281b'', PStr ''a59b8f'', PStr ''b39fe1'']"

definition CHANGE_COLOR :: string where
  "CHANGE_COLOR = ''ff00ff''"

definition RECT_BOUNDS :: pyval where
  "RECT_BOUNDS = PList [PFloat (5416 / 100), PFloat (2429 / 100), PFloat (5474 / 100),
     PFloat (2461 / 100)]"

definition KEY_VAR :: string where
  "KEY_VAR = ''GEE_SERVICE_ACCOUNT_KEY''"

text \<open>
  \<open>initialize_ee_from_env\<close> (lines 16 to 30). \<open>ee.Initialize\<close> sets the library's
  \<open>_initialized\<close> flag when it succeeds.
\<close>

definition initialize_ee_from_env :: "service \<Rightarrow> unit m" where
  "initialize_ee_from_env svc = (\<lambda>w.
     if ee_initialized w then (Inr (), w)
     else
       let w1 = log (EnvGet KEY_VAR) w in
       (case environ w KEY_VAR of
          None \<Rightarrow> (Inl (Exception ''RuntimeError''
                     ''GEE_SERVICE_ACCOUNT_KEY not set in environment.''), w1)
        | Some key_json \<Rightarrow>
            if key_json = [] then
              (Inl (Exception ''RuntimeError''
                 ''GEE_SERVICE_ACCOUNT_KEY not set in environment.''), w1)
            else
              (case json_loads svc key_json of
                 Inl e \<Rightarrow> (Inl e, w1)
               | Inr key_dict \<Rightarrow>
                   let scopes = [''https://www.googleapis.com/auth/earthengine''] in
                   (case from_service_account_info svc key_dict scopes of
                      Some e \<Rightarrow> (Inl e, w1)
                    | None \<Rightarrow>
                        let creds = Credentials key_dict scopes;
                            w2 = log (Initialize creds) w1 in
                        (case ee_Initialize svc (trace w1) creds of
                           Some e \<Rightarrow> (Inl e, w2)
                         | None \<Rightarrow> (Inr (), w2\<lparr>ee_initialized := True\<rparr>))))))"

text \<open>\<open>yearly_dw_label\<close> (lines 33 to 41).\<close>

definition yearly_dw_label :: "service \<Rightarrow> ee \<Rightarrow> ee \<Rightarrow> ee m" where
  "yearly_dw_label svc year roi =
     mbind (ee_call svc Date_fromYMD [year, Const (PInt 1), Const (PInt 1)]) (\<lambda>start.
     mbind (ee_call svc Date_advance [start, Const (PInt 1), Const (PStr ''year'')]) (\<lambda>end_date.
     mbind (ee_call svc ImageCollection_new [Const (PStr ''GOOGLE/DYNAMICWORLD/V1'')]) (\<lambda>c0.
     mbind (ee_call svc IC_filterBounds [c0, roi]) (\<lambda>c1.
     mbind (ee_call svc IC_filterDate [c1, start, end_date]) (\<lambda>c2.
     mbind (ee_call svc IC_select [c2, Const (PStr ''label'')]) (\<lambda>coll.
     mbind (ee_call svc IC_mode [coll]) (\<lambda>i0.
     mbind (ee_call svc Image_clip [i0, roi]) (\<lambda>i1.
     mbind (ee_call svc Image_unmask [i1, Const (PInt 0)]) (\<lambda>i2.
     mbind (ee_call svc Date_millis [start]) (\<lambda>ms.
     ee_call svc Image_set [i2, Const (PStr ''system:time_start''), ms]))))))))))"

text \<open>\<open>yearly_s2_rgb\<close> (lines 44 to 52).\<close>

definition yearly_s2_rgb :: "service \<Rightarrow> ee \<Rightarrow> ee \<Rightarrow> ee m" where
  "yearly_s2_rgb svc year roi =
     mbind (ee_call svc Date_fromYMD [year, Const (PInt 1), Const (PInt 1)]) (\<lambda>start.
     mbind (ee_call svc ImageCollection_new [Const (PStr ''COPERNICUS/S2_HARMONIZED'')]) (\<lambda>c0.
     mbind (ee_call svc IC_filterBounds [c0, roi]) (\<lambda>c1.
     mbind (ee_call svc Date_advance [start, Const (PInt 1), Const (PStr ''year'')]) (\<lambda>end_date.
     mbind (ee_call svc IC_filterDate [c1, start, end_date]) (\<lambda>c2.
     mbind (ee_call svc Filter_lt [Const (PStr ''CLOUDY_PIXEL_PERCENTAGE''), Const (PInt 30)])
       (\<lambda>flt.
     mbind (ee_call svc IC_filter [c2, flt]) (\<lambda>coll.
     mbind (ee_call svc IC_median [coll]) (\<lambda>med0.
     mbind (ee_call svc Image_clip [med0, roi]) (\<lambda>median.
     ee_call svc Image_visualize [median,
       Kw ''bands'' (Const (PList [PStr ''B4'', PStr ''B3'', PStr ''B2''])),
       Kw ''min'' (Const (PInt 0)), Kw ''max'' (Const (PInt 3000))])))))))))"

text \<open>The colourised classification: \<open>.visualize(min=0, max=8, palette=CLASS_PALETTE)\<close>.\<close>

definition visualize_classes :: "service \<Rightarrow> ee \<Rightarrow> ee m" where
  "visualize_classes svc img =
     ee_call svc Image_visualize [img, Kw ''min'' (Const (PInt 0)), Kw ''max'' (Const (PInt 8)),
       Kw ''palette'' (Const CLASS_PALETTE)]"

text \<open>
  \<open>build_vis_collection_range\<close> (lines 55 to 63). \<open>List.map\<close> runs \<open>map_year\<close> once, on
  the library's placeholder, to obtain the body of the mapped function.
\<close>

definition map_year :: "service \<Rightarrow> ee \<Rightarrow> ee \<Rightarrow> ee m" where
  "map_year svc roi y0 =
     mbind (ee_call svc Number_new [y0]) (\<lambda>y.
     mbind (yearly_dw_label svc y roi) (\<lambda>lbl.
     mbind (visualize_classes svc lbl) (\<lambda>img.
     mbind (ee_call svc Date_fromYMD [y, Const (PInt 1), Const (PInt 1)]) (\<lambda>d.
     mbind (ee_call svc Date_millis [d]) (\<lambda>ms.
     ee_call svc Image_set [img, Const (PStr ''system:time_start''), ms])))))"

definition build_vis_collection_range :: "service \<Rightarrow> int \<Rightarrow> int \<Rightarrow> ee \<Rightarrow> ee m" where
  "build_vis_collection_range svc y_start y_end roi =
     mbind (ee_call svc List_sequence [Const (PInt y_start), Const (PInt y_end)]) (\<lambda>years_list.
     mbind (map_year svc roi Var) (\<lambda>body.
     mbind (ee_call svc List_map [years_list, Fn body]) (\<lambda>imgs.
     ee_call svc ImageCollection_new [imgs])))"

text \<open>\<open>make_change_layer\<close> (lines 66 to 71).\<close>

definition make_change_layer :: "service \<Rightarrow> int \<Rightarrow> int \<Rightarrow> ee \<Rightarrow> ee m" where
  "make_change_layer svc yA yB roi =
     mbind (yearly_dw_label svc (Const (PInt yA)) roi) (\<lambda>imgA.
     mbind (yearly_dw_label svc (Const (PInt yB)) roi) (\<lambda>imgB.
     mbind (ee_call svc Image_neq [imgA, imgB]) (\<lambda>c0.
     mbind (ee_call svc Image_selfMask [c0]) (\<lambda>c1.
     mbind (ee_call svc Image_clip [c1, roi]) (\<lambda>ch.
     ee_call svc Image_visualize [ch, Kw ''palette'' (Const (PList [PStr CHANGE_COLOR]))])))))"

text \<open>\<open>get_roi_from_params\<close> (lines 74 to 78).\<close>

definition rectangle :: "pyval \<Rightarrow> ee" where
  "rectangle coords = Call Geometry_Rectangle [Const coords, Const PNone, Const (PBool False)]"

definition Rectangle :: "service \<Rightarrow> pyval \<Rightarrow> ee m" where
  "Rectangle svc coords =
     ee_call svc Geometry_Rectangle [Const coords, Const PNone, Const (PBool False)]"

definition get_roi_from_params :: "service \<Rightarrow> (string \<Rightarrow> pyval option) \<Rightarrow> ee m" where
  "get_roi_from_params svc params =
     (case params ''bounds'' of
        None \<Rightarrow> Rectangle svc RECT_BOUNDS
      | Some bounds \<Rightarrow>
          if truthy bounds \<and> is_list_or_tuple bounds \<and> py_len bounds = 4
          then Rectangle svc bounds
          else Rectangle svc RECT_BOUNDS)"

text \<open>\<open>image_thumbnail_url\<close> (lines 81 to 87).\<close>

definition image_thumbnail_url :: "service \<Rightarrow> ee \<Rightarrow> ee \<Rightarrow> int \<Rightarrow> string m" where
  "image_thumbnail_url svc img region dims =
     mbind (ee_call svc Geometry_bounds [region]) (\<lambda>b.
     mbind (get_info svc b) (\<lambda>info.
     mbind (lift (py_getitem info ''coordinates'')) (\<lambda>coords.
     get_thumb_url svc img (PDict [(''region'', coords), (''dimensions'', PInt dims)]))))"

text \<open>\<open>collection_video_thumb_url\<close> (lines 90 to 98).\<close>

definition collection_video_thumb_url ::
  "service \<Rightarrow> ee \<Rightarrow> ee \<Rightarrow> int \<Rightarrow> int \<Rightarrow> string m" where
  "collection_video_thumb_url svc coll region fps dims =
     mbind (ee_call svc Geometry_bounds [region]) (\<lambda>b.
     mbind (get_info svc b) (\<lambda>info.
     mbind (lift (py_getitem info ''coordinates'')) (\<lambda>coords.
     get_video_thumb_url svc coll
       (PDict [(''region'', coords), (''framesPerSecond'', PInt fps),
               (''dimensions'', PInt dims)]))))"

text \<open>
  \<open>run_gee_task\<close> (lines 101 to 165), statement by statement. Lines 111 to 121 set up
  the session and read the request: the two years in ascending order, the region, the
  thumbnail dimension, the video flag and the frame rate.
\<close>

definition read_request ::
  "service \<Rightarrow> (string \<Rightarrow> pyval option) \<Rightarrow> (int \<times> int \<times> ee \<times> int \<times> bool \<times> int) m" where
  "read_request svc params =
     mbind (initialize_ee_from_env svc) (\<lambda>u.
     mbind (lift (py_int svc (dict_get params ''yearA'' (PInt (YEARS ! 0))))) (\<lambda>a.
     mbind (lift (py_int svc (dict_get params ''yearB'' (PInt (last YEARS))))) (\<lambda>b.
     mbind (get_roi_from_params svc params) (\<lambda>roi.
     mbind (lift (py_int svc (dict_get params ''thumb_dims'' (PInt 768)))) (\<lambda>thumb_dims.
     mbind (lift (py_int svc (dict_get params ''video_fps'' (PInt 1)))) (\<lambda>video_fps.
     return (if a > b then b else a, if a > b then a else b, roi, thumb_dims,
             truthy (dict_get params ''video'' (PBool False)), video_fps)))))))"

text \<open>Lines 123 to 135: the five images and their thumbnail URLs.\<close>

definition thumbnail_urls :: "service \<Rightarrow> int \<Rightarrow> int \<Rightarrow> ee \<Rightarrow> int \<Rightarrow> pyval m" where
  "thumbnail_urls svc yearA yearB roi thumb_dims =
     mbind (yearly_dw_label svc (Const (PInt yearA)) roi) (\<lambda>lblA.
     mbind (visualize_classes svc lblA) (\<lambda>dw_vis_A.
     mbind (yearly_dw_label svc (Const (PInt yearB)) roi) (\<lambda>lblB.
     mbind (visualize_classes svc lblB) (\<lambda>dw_vis_B.
     mbind (yearly_s2_rgb svc (Const (PInt yearA)) roi) (\<lambda>s2_vis_A.
     mbind (yearly_s2_rgb svc (Const (PInt yearB)) roi) (\<lambda>s2_vis_B.
     mbind (make_change_layer svc yearA yearB roi) (\<lambda>change_vis.
     mbind (image_thumbnail_url svc dw_vis_A roi thumb_dims) (\<lambda>u1.
     mbind (image_thumbnail_url svc dw_vis_B roi thumb_dims) (\<lambda>u2.
     mbind (image_thumbnail_url svc s2_vis_A roi thumb_dims) (\<lambda>u3.
     mbind (image_thumbnail_url svc s2_vis_B roi thumb_dims) (\<lambda>u4.
     mbind (image_thumbnail_url svc change_vis roi thumb_dims) (\<lambda>u5.
     return (PDict [(''dw_A_thumb'', PStr u1), (''dw_B_thumb'', PStr u2),
                    (''s2_A_thumb'', PStr u3), (''s2_B_thumb'', PStr u4),
                    (''change_thumb'', PStr u5)])))))))))))))"

text \<open>Lines 138 to 146: the histogram request, and the \<open>try\<close> statement around it.\<close>

definition histogram_request :: "service \<Rightarrow> int \<Rightarrow> ee \<Rightarrow> pyval m" where
  "histogram_request svc yearA roi =
     mbind (yearly_dw_label svc (Const (PInt yearA)) roi) (\<lambda>lbl.
     mbind (ee_call svc Reducer_frequencyHistogram []) (\<lambda>reducer.
     mbind (ee_call svc Image_reduceRegion [lbl, Kw ''reducer'' reducer, Kw ''geometry'' roi,
              Kw ''scale'' (Const (PInt 30)), Kw ''maxPixels'' (Const (PFloat 1000000000))])
       (\<lambda>stats.
     get_info svc stats)))"

definition histogram_yearA :: "service \<Rightarrow> int \<Rightarrow> ee \<Rightarrow> pyval m" where
  "histogram_yearA svc yearA roi =
     try_except (histogram_request svc yearA roi)
       (\<lambda>e. return (PDict [(''error'', PStr (str_exn e))]))"

text \<open>
  Lines 148 to 154: the animated sequence. The collection is built before the \<open>try\<close>
  statement; the \<open>try\<close> statement holds the URL request alone.
\<close>

definition video_url ::
  "service \<Rightarrow> bool \<Rightarrow> int \<Rightarrow> int \<Rightarrow> ee \<Rightarrow> int \<Rightarrow> int \<Rightarrow> pyval m" where
  "video_url svc produce_video yearA yearB roi video_fps thumb_dims =
     (if produce_video then
        mbind (build_vis_collection_range svc yearA yearB roi) (\<lambda>vis_coll.
        try_except
          (mbind (collection_video_thumb_url svc vis_coll roi video_fps thumb_dims)
             (\<lambda>url. return (PStr url)))
          (\<lambda>e. return PNone))
      else return PNone)"

text \<open>Line 156; the three characters between the years are those of the source file.\<close>

definition summary_text :: "int \<Rightarrow> int \<Rightarrow> string" where
  "summary_text yearA yearB =
     ''Dynamic World for years '' @ str_int yearA @ '' ''
       @ [CHR 0xC3, CHR 0xA2, CHR 0xE2, CHR 0x80, CHR 0xA0, CHR 0xE2, CHR 0x80, CHR 0x99]
       @ '' '' @ str_int yearB @ '' over the Abu Dhabi city block.''"

definition result_object :: "int \<Rightarrow> int \<Rightarrow> pyval \<Rightarrow> pyval \<Rightarrow> pyval \<Rightarrow> pyval" where
  "result_object yearA yearB urls freqA video =
     PDict [(''summary'', PStr (summary_text yearA yearB)),
            (''yearA'', PInt yearA),
            (''yearB'', PInt yearB),
            (''urls'', urls),
            (''histogram_yearA'', freqA),
            (''video_url'', video)]"

definition run_gee_task :: "service \<Rightarrow> (string \<Rightarrow> pyval option) \<Rightarrow> pyval m" where
  "run_gee_task svc params =
     mbind (read_request svc params)
       (\<lambda>(yearA, yearB, roi, thumb_dims, produce_video, video_fps).
     mbind (thumbnail_urls svc yearA yearB roi thumb_dims) (\<lambda>urls.
     mbind (histogram_yearA svc yearA roi) (\<lambda>freqA.
     mbind (video_url svc produce_video yearA yearB roi video_fps thumb_dims) (\<lambda>video.
     return (result_object yearA yearB urls freqA video)))))"

section \<open>main.py\<close>

record response =
  status_code :: nat
  content :: pyval

definition startup_event :: "service \<Rightarrow> unit m" where
  "startup_event svc = initialize_ee_from_env svc"

definition root :: response where
  "root = \<lparr>status_code = 200,
            content = PDict [(''message'', PStr ''GEE Dynamic World API is running'')]\<rparr>"

text \<open>
  \<open>JSONResponse(content, status_code)\<close> renders its content when it is made, with
  \<open>json.dumps(content, allow_nan=False)\<close>: a content that holds a float that is not finite
  is refused with an exception (a \<open>ValueError\<close>).
\<close>

fun json_compliant :: "pyval \<Rightarrow> bool" where
  "json_compliant PNaN = False"
| "json_compliant PInf = False"
| "json_compliant PNegInf = False"
| "json_compliant (PList xs) = list_all json_compliant xs"
| "json_compliant (PDict kvs) = list_all (\<lambda>kv. json_compliant (snd kv)) kvs"
| "json_compliant v = True"

definition JSONResponse :: "service \<Rightarrow> pyval \<Rightarrow> nat \<Rightarrow> response m" where
  "JSONResponse svc body status =
     (if json_compliant body then return \<lparr>status_code = status, content = body\<rparr>
      else raise (json_error svc body))"

text \<open>
  \<open>chat\<close> (lines 16 to 22): the body is a JSON object, the handler's parameter map. The
  response is made inside the \<open>try\<close> statement, so a result that cannot be rendered is
  answered like an exception of the handler. The error object holds a string only, which
  is always rendered.
\<close>

definition chat :: "service \<Rightarrow> (string \<Rightarrow> pyval option) \<Rightarrow> world \<Rightarrow> response \<times> world" where
  "chat svc data w =
     (case mbind (run_gee_task svc data) (\<lambda>result. JSONResponse svc result 200) w of
        (Inr resp, w') \<Rightarrow> (resp, w')
      | (Inl e, w') \<Rightarrow>
          (\<lparr>status_code = 500, content = PDict [(''error'', PStr (str_exn e))]\<rparr>, w'))"

section \<open>Observations on traces and example environments\<close>

text \<open>A four-element array of numbers: the bounding box the interface documents.\<close>

fun is_number :: "pyval \<Rightarrow> bool" where
  "is_number (PInt i) = True"
| "is_number (PFloat r) = True"
| "is_number v = False"

fun well_formed_bounds :: "pyval \<Rightarrow> bool" where
  "well_formed_bounds (PList xs) = (length xs = 4 \<and> list_all is_number xs)"
| "well_formed_bounds v = False"

text \<open>
  The geometries an object of the client library is computed over: whatever is given
  where the library takes a geometry, that is to \<open>filterBounds\<close>, \<open>clip\<close> and \<open>bounds\<close>
  and as the \<open>geometry\<close> of \<open>reduceRegion\<close>.
\<close>

fun regions :: "ee \<Rightarrow> ee list" where
  "regions (Const v) = []"
| "regions Var = []"
| "regions (Kw k e) = (if k = ''geometry'' then [e] else regions e)"
| "regions (Fn e) = regions e"
| "regions (Call f args) =
     (if f = Geometry_bounds then args
      else if f = IC_filterBounds \<or> f = Image_clip then
        (case args of [] \<Rightarrow> [] | x # gs \<Rightarrow> regions x @ gs)
      else concat (map regions args))"

text \<open>The geometries of the object an event is about.\<close>

fun event_regions :: "event \<Rightarrow> ee list" where
  "event_regions (ClientCall e) = regions e"
| "event_regions (GetInfo e) = regions e"
| "event_regions (GetThumbURL img p) = regions img"
| "event_regions (GetVideoThumbURL coll p) = regions coll"
| "event_regions ev = []"

text \<open>
  The parameters a thumbnail request is sent with. Their \<open>region\<close> entry is a list of
  coordinates: it is the bounds of \<open>roi\<close> when the event before the request is the look-up
  of those bounds and the entry is what the service answered to it.
\<close>

fun request_params :: "event \<Rightarrow> pyval option" where
  "request_params (GetThumbURL img p) = Some p"
| "request_params (GetVideoThumbURL coll p) = Some p"
| "request_params ev = None"

definition looked_up :: "service \<Rightarrow> ee \<Rightarrow> event list \<Rightarrow> pyval \<Rightarrow> bool" where
  "looked_up svc roi h p \<longleftrightarrow>
     h \<noteq> [] \<and> last h = GetInfo (Call Geometry_bounds [roi]) \<and>
     (case getInfo svc (butlast h) (Call Geometry_bounds [roi]) of
        Inl e \<Rightarrow> False
      | Inr info \<Rightarrow>
          (case py_getitem info ''coordinates'' of
             Inl e \<Rightarrow> False
           | Inr c \<Rightarrow> py_getitem p ''region'' = Inr c))"

text \<open>A request sent to the remote service, as opposed to a call that only builds an object.\<close>

fun is_request :: "event \<Rightarrow> bool" where
  "is_request (GetInfo e) = True"
| "is_request (GetThumbURL img p) = True"
| "is_request (GetVideoThumbURL coll p) = True"
| "is_request ev = False"

fun constructs_region :: "event \<Rightarrow> bool" where
  "constructs_region (ClientCall (Call f args)) = (f = Geometry_Rectangle)"
| "constructs_region ev = False"

text \<open>
  The events of the animated sequence: building the list of years, mapping over it,
  making a collection of the mapped list, and the animated-thumbnail request.
\<close>

fun is_computed :: "ee \<Rightarrow> bool" where
  "is_computed (Call f args) = True"
| "is_computed e = False"

fun sequence_event :: "event \<Rightarrow> bool" where
  "sequence_event (ClientCall (Call f args)) =
     (f = List_sequence \<or> f = List_map \<or> f = Number_new
      \<or> (f = ImageCollection_new \<and> list_all is_computed args))"
| "sequence_event (GetVideoThumbURL coll p) = True"
| "sequence_event ev = False"

text \<open>
  An event, after the events \<open>h\<close>, is over the region \<open>roi\<close>: its object is computed over
  no other geometry, a request is computed over \<open>roi\<close>, and a thumbnail request is sent
  with the bounds of \<open>roi\<close>.
\<close>

definition over_region :: "service \<Rightarrow> ee \<Rightarrow> event list \<Rightarrow> event \<Rightarrow> bool" where
  "over_region svc roi h ev \<longleftrightarrow>
     set (event_regions ev) \<subseteq> {roi}
     \<and> (is_request ev \<longrightarrow> set (event_regions ev) = {roi})
     \<and> (case request_params ev of None \<Rightarrow> True | Some p \<Rightarrow> looked_up svc roi h p)"

text \<open>Every event of a list, each after the events before it.\<close>

fun all_events :: "(event list \<Rightarrow> event \<Rightarrow> bool) \<Rightarrow> event list \<Rightarrow> event list \<Rightarrow> bool" where
  "all_events P h [] = True"
| "all_events P h (ev # es) = (P h ev \<and> all_events P (h @ [ev]) es)"

definition emits :: "(event list \<Rightarrow> event \<Rightarrow> bool) \<Rightarrow> ('a \<Rightarrow> bool) \<Rightarrow> 'a m \<Rightarrow> bool" where
  "emits P Q m \<longleftrightarrow>
     (\<forall>w r w'. m w = (r, w') \<longrightarrow>
        (\<exists>es. trace w' = trace w @ es \<and> all_events P (trace w) es)
        \<and> (\<forall>x. r = Inr x \<longrightarrow> Q x))"

definition quiet :: "service \<Rightarrow> ee \<Rightarrow> event list \<Rightarrow> event \<Rightarrow> bool" where
  "quiet svc roi h ev \<longleftrightarrow>
     over_region svc roi h ev \<and> \<not> constructs_region ev \<and> \<not> sequence_event ev"

definition steady :: "service \<Rightarrow> ee \<Rightarrow> event list \<Rightarrow> event \<Rightarrow> bool" where
  "steady svc roi h ev \<longleftrightarrow> over_region svc roi h ev \<and> \<not> constructs_region ev"

text \<open>
  The requests of a trace, by kind: the look-up of a region's bounds, the histogram
  reduction, a thumbnail, the animated thumbnail.
\<close>

datatype request = Lookup | Reduction | Thumbnail | Animation | Other

fun request_of :: "event \<Rightarrow> request option" where
  "request_of (GetInfo (Call f args)) =
     Some (if f = Geometry_bounds then Lookup
           else if f = Image_reduceRegion then Reduction else Other)"
| "request_of (GetInfo e) = Some Other"
| "request_of (GetThumbURL img p) = Some Thumbnail"
| "request_of (GetVideoThumbURL coll p) = Some Animation"
| "request_of ev = None"

fun requests :: "event list \<Rightarrow> request list" where
  "requests [] = []"
| "requests (ev # es) =
     (case request_of ev of None \<Rightarrow> requests es | Some k \<Rightarrow> k # requests es)"

definition sends :: "(exn + 'a \<Rightarrow> request list \<Rightarrow> bool) \<Rightarrow> 'a m \<Rightarrow> bool" where
  "sends R m \<longleftrightarrow>
     (\<forall>w r w'. m w = (r, w') \<longrightarrow> (\<exists>es. trace w' = trace w @ es \<and> R r (requests es)))"

text \<open>
  The requests of a run that returns, with or without a video requested: the five
  thumbnails, each after the look-up of its region; then the histogram reduction, unless
  the step failed before sending it, which leaves the error object in the result; then
  the look-up and the animated thumbnail, or the part of them sent before the step
  failed, which leaves \<open>video_url\<close> null.
\<close>

fun is_error_object :: "exn + pyval \<Rightarrow> bool" where
  "is_error_object (Inr (PDict [(k, PStr msg)])) = (k = ''error'')"
| "is_error_object v = False"

definition request_plan :: "bool \<Rightarrow> pyval \<Rightarrow> request list \<Rightarrow> bool" where
  "request_plan v res rs \<longleftrightarrow>
     (\<exists>hs \<in> {[], [Reduction]}. \<exists>vs \<in> {[], [Lookup], [Lookup, Animation]}.
        rs = concat (replicate 5 [Lookup, Thumbnail]) @ hs @ vs
        \<and> (hs = [] \<longrightarrow> is_error_object (py_getitem res ''histogram_yearA''))
        \<and> (\<not> v \<longrightarrow> vs = [])
        \<and> (vs \<noteq> [Lookup, Animation] \<longrightarrow> py_getitem res ''video_url'' = Inr PNone))"

text \<open>Example environments: a service where every call succeeds, and two worlds.\<close>

definition ok_urls :: pyval where
  "ok_urls = PDict [(''dw_A_thumb'', PStr ''https://ee/thumb''),
     (''dw_B_thumb'', PStr ''https://ee/thumb''), (''s2_A_thumb'', PStr ''https://ee/thumb''),
     (''s2_B_thumb'', PStr ''https://ee/thumb''), (''change_thumb'', PStr ''https://ee/thumb'')]"

definition ok_info :: pyval where
  "ok_info = PDict [(''coordinates'', PList []), (''label'', PDict [(''1'', PInt 7)])]"

definition not_json_compliant :: exn where
  "not_json_compliant =
     Exception ''ValueError'' ''Out of range float values are not JSON compliant''"

definition ok_service :: service where
  "ok_service = \<lparr>
     int_of_str = (\<lambda>s. Inl (Exception ''ValueError'' ''invalid literal for int()'')),
     json_loads = (\<lambda>s. Inr (PDict [])),
     json_error = (\<lambda>v. not_json_compliant),
     from_service_account_info = (\<lambda>k s. None),
     ee_Initialize = (\<lambda>h c. None),
     client_raises = (\<lambda>h c. None),
     getInfo = (\<lambda>h c. Inr ok_info),
     getThumbURL = (\<lambda>h i p. Inr ''https://ee/thumb''),
     getVideoThumbURL = (\<lambda>h i p. Inr ''https://ee/video'')\<rparr>"

definition idle_world :: world where
  "idle_world = \<lparr>environ = (\<lambda>k. None), ee_initialized = True, trace = []\<rparr>"

definition fresh_world :: world where
  "fresh_world = \<lparr>environ = (\<lambda>k. None), ee_initialized = False, trace = []\<rparr>"

definition keyed_world :: world where
  "keyed_world = \<lparr>environ = (\<lambda>k. if k = KEY_VAR then Some ''{}'' else None),
     ee_initialized = False, trace = []\<rparr>"

definition swapped_request :: "string \<Rightarrow> pyval option" where
  "swapped_request = [''yearA'' \<mapsto> PInt 2024, ''yearB'' \<mapsto> PInt 2020]"

definition ordered_request :: "string \<Rightarrow> pyval option" where
  "ordered_request = [''yearA'' \<mapsto> PInt 2021, ''yearB'' \<mapsto> PInt 2023]"

definition box_request :: pyval where
  "box_request = PList [PFloat (5430 / 100), PFloat (2440 / 100), PInt 55, PFloat (2450 / 100)]"

definition key_missing :: exn where
  "key_missing = Exception ''RuntimeError'' ''GEE_SERVICE_ACCOUNT_KEY not set in environment.''"

definition video_request :: "string \<Rightarrow> pyval option" where
  "video_request = [''yearA'' \<mapsto> PInt 2024, ''yearB'' \<mapsto> PInt 2020, ''video'' \<mapsto> PBool True]"

text \<open>
  Services that fail: one whose histogram reduction and animated-thumbnail request fail,
  and one whose client library refuses to build the list of years. A third answers the
  histogram reduction with a count that is not a number.
\<close>

fun is_reduction :: "ee \<Rightarrow> bool" where
  "is_reduction (Call f args) = (f = Image_reduceRegion)"
| "is_reduction e = False"

fun is_year_list :: "ee \<Rightarrow> bool" where
  "is_year_list (Call f args) = (f = List_sequence)"
| "is_year_list e = False"

definition timed_out :: exn where
  "timed_out = Exception ''EEException'' ''Computation timed out.''"

definition no_sequence :: exn where
  "no_sequence = Exception ''EEException'' ''List.sequence is not available.''"

definition degraded_service :: service where
  "degraded_service = ok_service\<lparr>
     getInfo := (\<lambda>h c. if is_reduction c then Inl timed_out else Inr ok_info),
     getVideoThumbURL := (\<lambda>h c p. Inl timed_out)\<rparr>"

definition listless_service :: service where
  "listless_service = ok_service\<lparr>
     client_raises := (\<lambda>h c. if is_year_list c then Some no_sequence else None)\<rparr>"

definition nan_info :: pyval where
  "nan_info = PDict [(''coordinates'', PList []), (''label'', PDict [(''1'', PNaN)])]"

definition nan_service :: service where
  "nan_service = ok_service\<lparr>getInfo := (\<lambda>h c. Inr nan_info)\<rparr>"

section \<open>Properties\<close>

lemma mbind_Inr: "mbind m f w = (Inr y, w') \<longleftrightarrow> (\<exists>x w1. m w = (Inr x, w1) \<and> f x w1 = (Inr y, w'))"
  by (auto simp: mbind_def split: prod.splits sum.splits)

lemma lift_Inr: "lift r w = (Inr x, w') \<longleftrightarrow> r = Inr x \<and> w' = w"
  by (auto simp: lift_def)

lemma return_Inr: "return x w = (Inr y, w') \<longleftrightarrow> y = x \<and> w' = w"
  by (auto simp: return_def)

lemmas monad_defs = return_def raise_def lift_def mbind_def try_except_def log_def ee_call_def
  get_info_def get_thumb_url_def get_video_thumb_url_def

lemmas program_defs = run_gee_task_def read_request_def thumbnail_urls_def histogram_yearA_def
  histogram_request_def video_url_def image_thumbnail_url_def collection_video_thumb_url_def
  make_change_layer_def build_vis_collection_range_def map_year_def visualize_classes_def
  yearly_s2_rgb_def yearly_dw_label_def get_roi_from_params_def Rectangle_def
  initialize_ee_from_env_def dict_get_def

lemma initialize_without_key:
  assumes "\<not> ee_initialized w" and "environ w KEY_VAR = None \<or> environ w KEY_VAR = Some []"
  shows "initialize_ee_from_env svc w = (Inl key_missing, log (EnvGet KEY_VAR) w)"
  using assms by (auto simp: initialize_ee_from_env_def key_missing_def Let_def)

lemma initialize_when_set: "ee_initialized w \<Longrightarrow> initialize_ee_from_env svc w = (Inr (), w)"
  by (simp add: initialize_ee_from_env_def)

lemma initialize_sets_flag:
  "initialize_ee_from_env svc w = (Inr u, w1) \<Longrightarrow> ee_initialized w1"
  by (auto simp: initialize_ee_from_env_def Let_def log_def
           split: if_splits option.splits sum.splits)

lemma read_request_years:
  assumes "read_request svc params w = (Inr (yA, yB, roi, d, v, f), w')"
      and "py_int svc (dict_get params ''yearA'' (PInt (YEARS ! 0))) = Inr a"
      and "py_int svc (dict_get params ''yearB'' (PInt (last YEARS))) = Inr b"
  shows "yA = (if a > b then b else a) \<and> yB = (if a > b then a else b)"
  using assms unfolding read_request_def
  by (auto simp: mbind_Inr lift_Inr return_Inr)

lemma run_gee_task_Inr:
  assumes "run_gee_task svc params w = (Inr res, w')"
  shows "\<exists>yA yB roi d v f w1 urls w2 freqA w3 video.
           read_request svc params w = (Inr (yA, yB, roi, d, v, f), w1)
         \<and> thumbnail_urls svc yA yB roi d w1 = (Inr urls, w2)
         \<and> histogram_yearA svc yA roi w2 = (Inr freqA, w3)
         \<and> video_url svc v yA yB roi f d w3 = (Inr video, w')
         \<and> res = result_object yA yB urls freqA video"
  using assms unfolding run_gee_task_def
  by (auto simp: mbind_Inr return_Inr split: prod.splits)

lemma Rectangle_result:
  assumes "Rectangle svc c w = (Inr r, w')"
  shows "r = rectangle c \<and> trace w' = trace w @ [ClientCall (rectangle c)]"
  using assms
  by (auto simp: Rectangle_def rectangle_def ee_call_def log_def split: option.splits)

lemma well_formed_boundsD:
  "well_formed_bounds b \<Longrightarrow> truthy b \<and> is_list_or_tuple b \<and> py_len b = 4"
  by (cases b) auto

lemma read_request_returns:
  assumes "initialize_ee_from_env svc w = (Inr u, w0)"
      and "py_int svc (dict_get params ''yearA'' (PInt (YEARS ! 0))) = Inr a"
      and "py_int svc (dict_get params ''yearB'' (PInt (last YEARS))) = Inr b"
      and "get_roi_from_params svc params w0 = (Inr roi, w1)"
      and "py_int svc (dict_get params ''thumb_dims'' (PInt 768)) = Inr d"
      and "py_int svc (dict_get params ''video_fps'' (PInt 1)) = Inr f"
  shows "read_request svc params w =
     (Inr (if a > b then b else a, if a > b then a else b, roi, d,
           truthy (dict_get params ''video'' (PBool False)), f), w1)"
  using assms by (simp add: read_request_def mbind_def lift_def return_def)

lemma run_gee_task_steps:
  assumes "read_request svc params w = (Inr (yA, yB, roi, d, v, f), w1)"
      and "thumbnail_urls svc yA yB roi d w1 = (Inr urls, w2)"
      and "histogram_yearA svc yA roi w2 = (Inr freqA, w3)"
  shows "run_gee_task svc params w =
     (case video_url svc v yA yB roi f d w3 of
        (Inl e, w4) \<Rightarrow> (Inl e, w4)
      | (Inr video, w4) \<Rightarrow> (Inr (result_object yA yB urls freqA video), w4))"
  using assms
  by (simp add: run_gee_task_def mbind_def return_def split: prod.splits sum.splits)



lemma video_url_unrequested: "video_url svc False yA yB roi f d w = (Inr PNone, w)"
  by (simp add: video_url_def return_def)





lemma chat_return:
  assumes "fst (run_gee_task svc data w) = Inr res" and "json_compliant res"
  shows "fst (chat svc data w) = \<lparr>status_code = 200, content = res\<rparr>"
  using assms
  by (cases "run_gee_task svc data w") (simp add: chat_def mbind_def JSONResponse_def return_def)

lemma chat_unrendered:
  assumes "fst (run_gee_task svc data w) = Inr res" and "\<not> json_compliant res"
  shows "fst (chat svc data w)
     = \<lparr>status_code = 500,
        content = PDict [(''error'', PStr (str_exn (json_error svc res)))]\<rparr>"
  using assms
  by (cases "run_gee_task svc data w") (simp add: chat_def mbind_def JSONResponse_def raise_def)


lemmas block_defs = thumbnail_urls_def histogram_request_def image_thumbnail_url_def
  collection_video_thumb_url_def make_change_layer_def build_vis_collection_range_def
  map_year_def visualize_classes_def yearly_s2_rgb_def yearly_dw_label_def



subsection \<open>The example services at work\<close>

lemmas service_defs = degraded_service_def listless_service_def nan_service_def
  ok_service_def ok_info_def nan_info_def ok_urls_def timed_out_def no_sequence_def
  not_json_compliant_def

lemma ok_run:
  "fst (run_gee_task ok_service swapped_request idle_world)
     = Inr (result_object 2020 2024 ok_urls ok_info PNone)"
  by (simp add: program_defs monad_defs ok_service_def swapped_request_def idle_world_def
        YEARS_def ok_urls_def ok_info_def)

lemma ok_roi:
  "fst (get_roi_from_params ok_service params w) = Inr (rectangle RECT_BOUNDS)"
  if "params ''bounds'' = None"
  using that
  by (simp add: get_roi_from_params_def Rectangle_def rectangle_def ee_call_def ok_service_def)

lemma ok_thumbnails: "fst (thumbnail_urls ok_service yA yB roi d w) = Inr ok_urls"
  by (simp add: block_defs monad_defs service_defs)

lemma ok_histogram: "fst (histogram_yearA ok_service yA roi w) = Inr ok_info"
  by (simp add: histogram_yearA_def block_defs monad_defs service_defs)

lemma nan_run:
  "fst (run_gee_task nan_service swapped_request idle_world)
     = Inr (result_object 2020 2024 ok_urls nan_info PNone)"
  by (simp add: program_defs monad_defs service_defs swapped_request_def idle_world_def
        YEARS_def)

lemma fresh_run:
  "run_gee_task ok_service swapped_request fresh_world
     = (Inl key_missing, log (EnvGet KEY_VAR) fresh_world)"
  by (simp add: run_gee_task_def read_request_def mbind_def
        initialize_without_key fresh_world_def)









lemma video_read:
  "fst (read_request ok_service video_request idle_world)
     = Inr (2020, 2024, rectangle RECT_BOUNDS, 768, True, 1)"
  by (simp add: read_request_def get_roi_from_params_def Rectangle_def rectangle_def
        initialize_ee_from_env_def dict_get_def monad_defs ok_service_def video_request_def
        idle_world_def YEARS_def)

lemma video_run:
  "fst (run_gee_task ok_service video_request idle_world)
     = Inr (result_object 2020 2024 ok_urls ok_info (PStr ''https://ee/video''))"
  by (simp add: program_defs monad_defs service_defs video_request_def idle_world_def
        YEARS_def)

subsection \<open>The years of the result\<close>

text \<open>
  C1. For a request whose \<open>yearA\<close> and \<open>yearB\<close> coerce to the integers \<open>a\<close> and \<open>b\<close>, every
  result \<open>run_gee_task\<close> returns holds the two in ascending order: swapped when \<open>a > b\<close>,
  as they are otherwise. And the handler does return them: when the session is set up,
  the region is made, the two other integers are read and the steps that follow, run on
  the ordered pair, return, \<open>run_gee_task\<close> returns the result they make for that pair.
\<close>

theorem years_ordered:
  assumes "py_int svc (dict_get params ''yearA'' (PInt (YEARS ! 0))) = Inr a"
      and "py_int svc (dict_get params ''yearB'' (PInt (last YEARS))) = Inr b"
  shows "(\<forall>res w'. run_gee_task svc params w = (Inr res, w') \<longrightarrow>
            py_getitem res ''yearA'' = Inr (PInt (if a > b then b else a))
          \<and> py_getitem res ''yearB'' = Inr (PInt (if a > b then a else b)))
       \<and> (if a > b then b else a) \<le> (if a > b then a else b)
       \<and> (\<forall>u w0 roi w1 d f urls w2 freqA w3 video w4.
            initialize_ee_from_env svc w = (Inr u, w0)
          \<and> get_roi_from_params svc params w0 = (Inr roi, w1)
          \<and> py_int svc (dict_get params ''thumb_dims'' (PInt 768)) = Inr d
          \<and> py_int svc (dict_get params ''video_fps'' (PInt 1)) = Inr f
          \<and> thumbnail_urls svc (if a > b then b else a) (if a > b then a else b) roi d w1
              = (Inr urls, w2)
          \<and> histogram_yearA svc (if a > b then b else a) roi w2 = (Inr freqA, w3)
          \<and> video_url svc (truthy (dict_get params ''video'' (PBool False)))
                (if a > b then b else a) (if a > b then a else b) roi f d w3
              = (Inr video, w4)
          \<longrightarrow> run_gee_task svc params w
              = (Inr (result_object (if a > b then b else a) (if a > b then a else b)
                   urls freqA video), w4))"
proof (intro conjI allI impI)
  fix res w'
  assume run: "run_gee_task svc params w = (Inr res, w')"
  from run_gee_task_Inr [OF run] obtain yA yB roi d v f w1 urls freqA video
    where rd: "read_request svc params w = (Inr (yA, yB, roi, d, v, f), w1)"
      and res: "res = result_object yA yB urls freqA video"
    by auto
  from read_request_years [OF rd assms]
  have y: "yA = (if a > b then b else a)" "yB = (if a > b then a else b)" by auto
  from res y show "py_getitem res ''yearA'' = Inr (PInt (if a > b then b else a))"
    by (simp add: result_object_def)
  from res y show "py_getitem res ''yearB'' = Inr (PInt (if a > b then a else b))"
    by (simp add: result_object_def)
next
  show "(if a > b then b else a) \<le> (if a > b then a else b)" by simp
next
  fix u w0 roi w1 d f urls w2 freqA w3 video w4
  assume steps: "initialize_ee_from_env svc w = (Inr u, w0)
          \<and> get_roi_from_params svc params w0 = (Inr roi, w1)
          \<and> py_int svc (dict_get params ''thumb_dims'' (PInt 768)) = Inr d
          \<and> py_int svc (dict_get params ''video_fps'' (PInt 1)) = Inr f
          \<and> thumbnail_urls svc (if a > b then b else a) (if a > b then a else b) roi d w1
              = (Inr urls, w2)
          \<and> histogram_yearA svc (if a > b then b else a) roi w2 = (Inr freqA, w3)
          \<and> video_url svc (truthy (dict_get params ''video'' (PBool False)))
                (if a > b then b else a) (if a > b then a else b) roi f d w3
              = (Inr video, w4)"
  then have i: "initialize_ee_from_env svc w = (Inr u, w0)"
    and g: "get_roi_from_params svc params w0 = (Inr roi, w1)"
    and d: "py_int svc (dict_get params ''thumb_dims'' (PInt 768)) = Inr d"
    and f: "py_int svc (dict_get params ''video_fps'' (PInt 1)) = Inr f"
    by simp_all
  have rd: "read_request svc params w =
     (Inr (if a > b then b else a, if a > b then a else b, roi, d,
           truthy (dict_get params ''video'' (PBool False)), f), w1)"
    by (rule read_request_returns [OF i assms g d f])
  from steps show "run_gee_task svc params w
      = (Inr (result_object (if a > b then b else a) (if a > b then a else b)
           urls freqA video), w4)"
    by (simp add: run_gee_task_steps [OF rd])
qed

theorem years_ordered_witness:
  "fst (run_gee_task ok_service swapped_request idle_world)
     = Inr (result_object 2020 2024 ok_urls ok_info PNone)
   \<and> py_getitem (result_object 2020 2024 ok_urls ok_info PNone) ''yearA'' = Inr (PInt 2020)
   \<and> py_getitem (result_object 2020 2024 ok_urls ok_info PNone) ''yearB'' = Inr (PInt 2024)
   \<and> fst (run_gee_task ok_service ordered_request idle_world)
     = Inr (result_object 2021 2023 ok_urls ok_info PNone)"
proof -
  have swapped: "fst (run_gee_task ok_service p idle_world)
      = Inr (result_object (if a > b then b else a) (if a > b then a else b)
          ok_urls ok_info PNone)
    \<and> (\<forall>res w'. run_gee_task ok_service p idle_world = (Inr res, w') \<longrightarrow>
          py_getitem res ''yearA'' = Inr (PInt (if a > b then b else a))
        \<and> py_getitem res ''yearB'' = Inr (PInt (if a > b then a else b)))"
    if p: "p = [''yearA'' \<mapsto> PInt a, ''yearB'' \<mapsto> PInt b]" for p a b
  proof -
    define w1 where "w1 = snd (get_roi_from_params ok_service p idle_world)"
    define w2 where "w2 = snd (thumbnail_urls ok_service (if a > b then b else a)
      (if a > b then a else b) (rectangle RECT_BOUNDS) 768 w1)"
    define w3 where
      "w3 = snd (histogram_yearA ok_service (if a > b then b else a) (rectangle RECT_BOUNDS) w2)"
    have a: "py_int ok_service (dict_get p ''yearA'' (PInt (YEARS ! 0))) = Inr a"
      and b: "py_int ok_service (dict_get p ''yearB'' (PInt (last YEARS))) = Inr b"
      and d: "py_int ok_service (dict_get p ''thumb_dims'' (PInt 768)) = Inr 768"
      and f: "py_int ok_service (dict_get p ''video_fps'' (PInt 1)) = Inr 1"
      and v: "truthy (dict_get p ''video'' (PBool False)) = False"
      and nb: "p ''bounds'' = None"
      by (simp_all add: dict_get_def p)
    have init: "initialize_ee_from_env ok_service idle_world = (Inr (), idle_world)"
      by (simp add: initialize_when_set idle_world_def)
    have roi: "get_roi_from_params ok_service p idle_world = (Inr (rectangle RECT_BOUNDS), w1)"
      unfolding w1_def using ok_roi [where params = p, OF nb] by (metis prod.collapse)
    have th: "thumbnail_urls ok_service (if a > b then b else a) (if a > b then a else b)
        (rectangle RECT_BOUNDS) 768 w1 = (Inr ok_urls, w2)"
      unfolding w2_def using ok_thumbnails by (metis prod.collapse)
    have hi: "histogram_yearA ok_service (if a > b then b else a) (rectangle RECT_BOUNDS) w2
        = (Inr ok_info, w3)"
      unfolding w3_def using ok_histogram by (metis prod.collapse)
    have vi: "video_url ok_service (truthy (dict_get p ''video'' (PBool False)))
        (if a > b then b else a) (if a > b then a else b) (rectangle RECT_BOUNDS) 1 768 w3
        = (Inr PNone, w3)"
      by (simp add: v video_url_unrequested)
    note all = years_ordered [OF a b, of idle_world]
    from all [THEN conjunct2, THEN conjunct2, rule_format, OF conjI [OF init conjI [OF roi
      conjI [OF d conjI [OF f conjI [OF th conjI [OF hi vi]]]]]]]
    have "run_gee_task ok_service p idle_world
      = (Inr (result_object (if a > b then b else a) (if a > b then a else b)
           ok_urls ok_info PNone), w3)" .
    with all [THEN conjunct1] show ?thesis by simp
  qed
  from swapped [of swapped_request 2024 2020] swapped [of ordered_request 2021 2023]
  show ?thesis
    by (simp add: swapped_request_def ordered_request_def result_object_def)
qed

lemma read_request_roi:
  assumes "read_request svc params w = (Inr (yA, yB, roi, d, v, f), w')"
  shows "\<exists>w1 w2. get_roi_from_params svc params w1 = (Inr roi, w2)"
  using assms unfolding read_request_def
  by (auto simp: mbind_Inr lift_Inr return_Inr)

text \<open>
  C4. When the request has no \<open>bounds\<close> key, the region \<open>get_roi_from_params\<close> makes, and
  \<open>run_gee_task\<close> uses, is the rectangle of the default box \<open>RECT_BOUNDS\<close>; when \<open>bounds\<close> is
  a well-formed array of four numbers, it is the rectangle of that array.
\<close>

theorem roi_from_bounds:
  "(params ''bounds'' = None \<longrightarrow>
      get_roi_from_params svc params = Rectangle svc RECT_BOUNDS
      \<and> (\<forall>yA yB roi d v f w w'.
            read_request svc params w = (Inr (yA, yB, roi, d, v, f), w')
            \<longrightarrow> roi = rectangle RECT_BOUNDS))
   \<and> (\<forall>b. params ''bounds'' = Some b \<and> well_formed_bounds b \<longrightarrow>
      get_roi_from_params svc params = Rectangle svc b
      \<and> (\<forall>yA yB roi d v f w w'.
            read_request svc params w = (Inr (yA, yB, roi, d, v, f), w')
            \<longrightarrow> roi = rectangle b))"
proof (intro conjI impI allI)
  assume "params ''bounds'' = None"
  then show g: "get_roi_from_params svc params = Rectangle svc RECT_BOUNDS"
    by (simp add: get_roi_from_params_def)
  fix yA yB roi d v f w w'
  assume "read_request svc params w = (Inr (yA, yB, roi, d, v, f), w')"
  from read_request_roi [OF this] g show "roi = rectangle RECT_BOUNDS"
    by (auto dest: Rectangle_result)
next
  fix b assume b: "params ''bounds'' = Some b \<and> well_formed_bounds b"
  with well_formed_boundsD [of b]
  show g: "get_roi_from_params svc params = Rectangle svc b"
    by (simp add: get_roi_from_params_def)
  fix yA yB roi d v f w w'
  assume "read_request svc params w = (Inr (yA, yB, roi, d, v, f), w')"
  from read_request_roi [OF this] g show "roi = rectangle b"
    by (auto dest: Rectangle_result)
qed

theorem roi_from_bounds_witness:
  "get_roi_from_params ok_service swapped_request = Rectangle ok_service RECT_BOUNDS
   \<and> get_roi_from_params ok_service (swapped_request(''bounds'' \<mapsto> box_request))
       = Rectangle ok_service box_request
   \<and> fst (Rectangle ok_service box_request idle_world) = Inr (rectangle box_request)"
proof -
  have none: "swapped_request ''bounds'' = None"
    by (simp add: swapped_request_def)
  have some: "(swapped_request(''bounds'' \<mapsto> box_request)) ''bounds'' = Some box_request
      \<and> well_formed_bounds box_request"
    by (simp add: box_request_def)
  from roi_from_bounds [of swapped_request ok_service] none
  have 1: "get_roi_from_params ok_service swapped_request = Rectangle ok_service RECT_BOUNDS"
    by simp
  from roi_from_bounds [of "swapped_request(''bounds'' \<mapsto> box_request)" ok_service] some
  have 2: "get_roi_from_params ok_service (swapped_request(''bounds'' \<mapsto> box_request))
       = Rectangle ok_service box_request"
    by simp
  have 3: "fst (Rectangle ok_service box_request idle_world) = Inr (rectangle box_request)"
    by (simp add: Rectangle_def rectangle_def ee_call_def ok_service_def)
  from 1 2 3 show ?thesis by simp
qed

subsection \<open>The route\<close>

text \<open>
  C5, as the code has it. When \<open>run_gee_task\<close> raises an exception, \<open>POST /chat\<close> answers
  with status 500 and an object whose \<open>error\<close> field is the exception's message. When it
  returns a result that can be rendered as JSON, the route answers with the result and
  status 200. When it returns a result that cannot (one that holds a float that is not
  finite), making the response raises inside the same \<open>try\<close> statement, and the route
  answers with status 500 and that exception's message.
\<close>

theorem chat_status:
  "(\<forall>e w'. run_gee_task svc data w = (Inl e, w') \<longrightarrow>
      chat svc data w
        = (\<lparr>status_code = 500, content = PDict [(''error'', PStr (str_exn e))]\<rparr>, w'))
   \<and> (\<forall>res w'. run_gee_task svc data w = (Inr res, w') \<and> json_compliant res \<longrightarrow>
      chat svc data w = (\<lparr>status_code = 200, content = res\<rparr>, w'))
   \<and> (\<forall>res w'. run_gee_task svc data w = (Inr res, w') \<and> \<not> json_compliant res \<longrightarrow>
      chat svc data w
        = (\<lparr>status_code = 500,
             content = PDict [(''error'', PStr (str_exn (json_error svc res)))]\<rparr>, w'))"
  by (simp add: chat_def mbind_def JSONResponse_def return_def raise_def)

theorem chat_status_witness:
  "fst (chat ok_service swapped_request fresh_world)
     = \<lparr>status_code = 500,
        content = PDict [(''error'', PStr ''GEE_SERVICE_ACCOUNT_KEY not set in environment.'')]\<rparr>
   \<and> fst (chat ok_service swapped_request idle_world)
     = \<lparr>status_code = 200, content = result_object 2020 2024 ok_urls ok_info PNone\<rparr>"
proof -
  have run: "run_gee_task ok_service swapped_request idle_world
      = (Inr (result_object 2020 2024 ok_urls ok_info PNone),
         snd (run_gee_task ok_service swapped_request idle_world))"
    using ok_run by (metis prod.collapse)
  have ok: "json_compliant (result_object 2020 2024 ok_urls ok_info PNone)"
    by (simp add: result_object_def ok_urls_def ok_info_def)
  from chat_status [of ok_service swapped_request fresh_world] fresh_run
  have 1: "fst (chat ok_service swapped_request fresh_world)
     = \<lparr>status_code = 500,
        content = PDict [(''error'', PStr ''GEE_SERVICE_ACCOUNT_KEY not set in environment.'')]\<rparr>"
    by (simp add: key_missing_def)
  from chat_status [of ok_service swapped_request idle_world] run ok
  have 2: "fst (chat ok_service swapped_request idle_world)
     = \<lparr>status_code = 200, content = result_object 2020 2024 ok_urls ok_info PNone\<rparr>"
    by simp
  from 1 2 show ?thesis by simp
qed

text \<open>
  C5 as stated fails: a service that answers the histogram reduction with a count that is
  not a number lets \<open>run_gee_task\<close> return its result, and the route answers 500.
\<close>

theorem unrendered_result_is_500:
  "fst (run_gee_task nan_service swapped_request idle_world)
     = Inr (result_object 2020 2024 ok_urls nan_info PNone)
   \<and> fst (chat nan_service swapped_request idle_world)
     = \<lparr>status_code = 500,
        content = PDict [(''error'',
          PStr ''Out of range float values are not JSON compliant'')]\<rparr>"
proof -
  have "\<not> json_compliant (result_object 2020 2024 ok_urls nan_info PNone)"
    by (simp add: result_object_def nan_info_def)
  from chat_unrendered [OF nan_run this] nan_run show ?thesis
    by (simp add: nan_service_def ok_service_def not_json_compliant_def)
qed

text \<open>
  C6. With the session not yet initialized and the variable \<open>GEE_SERVICE_ACCOUNT_KEY\<close>
  unset or empty, \<open>initialize_ee_from_env\<close> raises a \<open>RuntimeError\<close>; so do the start-up
  hook and \<open>run_gee_task\<close>, whatever the request.
\<close>

theorem missing_key_is_fatal:
  assumes "\<not> ee_initialized w"
      and "environ w KEY_VAR = None \<or> environ w KEY_VAR = Some []"
  shows "initialize_ee_from_env svc w = (Inl key_missing, log (EnvGet KEY_VAR) w)
       \<and> startup_event svc w = (Inl key_missing, log (EnvGet KEY_VAR) w)
       \<and> run_gee_task svc params w = (Inl key_missing, log (EnvGet KEY_VAR) w)"
  using initialize_without_key [OF assms]
  by (simp add: startup_event_def run_gee_task_def read_request_def mbind_def)

theorem missing_key_is_fatal_witness:
  "\<not> ee_initialized fresh_world \<and> environ fresh_world KEY_VAR = None
   \<and> fst (initialize_ee_from_env ok_service fresh_world)
       = Inl (Exception ''RuntimeError'' ''GEE_SERVICE_ACCOUNT_KEY not set in environment.'')"
proof -
  have 1: "\<not> ee_initialized fresh_world" by (simp add: fresh_world_def)
  have 2: "environ fresh_world KEY_VAR = None \<or> environ fresh_world KEY_VAR = Some []"
    by (simp add: fresh_world_def)
  from missing_key_is_fatal [OF 1 2, of ok_service] show ?thesis
    by (simp add: key_missing_def fresh_world_def)
qed

text \<open>
  C7. With the initialized flag set, \<open>initialize_ee_from_env\<close> returns at once: it raises
  nothing and leaves the world as it is, the trace included, so it reads no environment
  variable and sends nothing. A call that succeeds leaves the flag set, so every later
  call, at start-up or at the head of \<open>run_gee_task\<close>, is such a call.
\<close>

theorem initialize_is_guarded:
  "(ee_initialized w \<longrightarrow>
      initialize_ee_from_env svc w = (Inr (), w) \<and> startup_event svc w = (Inr (), w))
   \<and> (\<forall>u w1. initialize_ee_from_env svc w = (Inr u, w1) \<longrightarrow>
      initialize_ee_from_env svc w1 = (Inr (), w1))"
  by (auto simp: startup_event_def initialize_when_set dest: initialize_sets_flag)

lemma keyed_initialize:
  "initialize_ee_from_env ok_service keyed_world
     = (Inr (), \<lparr>environ = environ keyed_world, ee_initialized = True,
         trace = [EnvGet KEY_VAR, Initialize (Credentials (PDict [])
           [''https://www.googleapis.com/auth/earthengine''])]\<rparr>)"
  by (simp add: initialize_ee_from_env_def keyed_world_def ok_service_def log_def KEY_VAR_def)

theorem initialize_is_guarded_witness:
  "ee_initialized idle_world
   \<and> initialize_ee_from_env ok_service idle_world = (Inr (), idle_world)
   \<and> fst (initialize_ee_from_env ok_service (snd (initialize_ee_from_env ok_service keyed_world)))
       = Inr ()"
proof -
  have 1: "ee_initialized idle_world" by (simp add: idle_world_def)
  from initialize_is_guarded [of idle_world ok_service] 1
  have 2: "initialize_ee_from_env ok_service idle_world = (Inr (), idle_world)" by simp
  from initialize_is_guarded [of keyed_world ok_service] keyed_initialize
  have 3: "fst (initialize_ee_from_env ok_service
      (snd (initialize_ee_from_env ok_service keyed_world))) = Inr ()"
    by simp
  from 1 2 3 show ?thesis by simp
qed

lemma malformed_roi:
  assumes "params ''bounds'' = Some b"
      and "\<not> truthy b \<or> \<not> is_list_or_tuple b \<or> py_len b \<noteq> 4"
  shows "get_roi_from_params svc params = Rectangle svc RECT_BOUNDS"
  using assms by (auto simp: get_roi_from_params_def)

lemma roi_without_bounds:
  "get_roi_from_params svc (params(''bounds'' := None)) = Rectangle svc RECT_BOUNDS"
  by (simp add: get_roi_from_params_def)

text \<open>
  C10. A \<open>bounds\<close> value that is falsy, is not a list or tuple, or has a length other than
  four is ignored: \<open>get_roi_from_params\<close> makes the default region, and the whole of
  \<open>run_gee_task\<close> goes as it does for the same request without the \<open>bounds\<close> key.
\<close>

theorem malformed_bounds_ignored:
  assumes "params ''bounds'' = Some b"
      and "\<not> truthy b \<or> \<not> is_list_or_tuple b \<or> py_len b \<noteq> 4"
  shows "get_roi_from_params svc params = Rectangle svc RECT_BOUNDS
       \<and> run_gee_task svc params = run_gee_task svc (params(''bounds'' := None))"
proof -
  have roi: "get_roi_from_params svc params = get_roi_from_params svc (params(''bounds'' := None))"
    using malformed_roi [where params = params, OF assms] roi_without_bounds by simp
  have "read_request svc params = read_request svc (params(''bounds'' := None))"
    unfolding read_request_def roi by (simp add: dict_get_def)
  then show ?thesis
    using malformed_roi [where params = params, OF assms] by (simp add: run_gee_task_def)
qed

theorem malformed_bounds_ignored_witness:
  "get_roi_from_params ok_service (swapped_request(''bounds'' \<mapsto> PStr ''everywhere''))
     = Rectangle ok_service RECT_BOUNDS
   \<and> get_roi_from_params ok_service (swapped_request(''bounds'' \<mapsto> PList [PInt 1, PInt 2]))
     = Rectangle ok_service RECT_BOUNDS
   \<and> get_roi_from_params ok_service (swapped_request(''bounds'' \<mapsto> PList []))
     = Rectangle ok_service RECT_BOUNDS"
proof -
  have 1: "get_roi_from_params ok_service (swapped_request(''bounds'' \<mapsto> PStr ''everywhere''))
     = Rectangle ok_service RECT_BOUNDS"
    using malformed_bounds_ignored
      [of "swapped_request(''bounds'' \<mapsto> PStr ''everywhere'')" "PStr ''everywhere''" ok_service]
    by simp
  have 2: "get_roi_from_params ok_service (swapped_request(''bounds'' \<mapsto> PList [PInt 1, PInt 2]))
     = Rectangle ok_service RECT_BOUNDS"
    using malformed_bounds_ignored
      [of "swapped_request(''bounds'' \<mapsto> PList [PInt 1, PInt 2])" "PList [PInt 1, PInt 2]"
        ok_service]
    by simp
  have 3: "get_roi_from_params ok_service (swapped_request(''bounds'' \<mapsto> PList []))
     = Rectangle ok_service RECT_BOUNDS"
    using malformed_bounds_ignored
      [of "swapped_request(''bounds'' \<mapsto> PList [])" "PList []" ok_service]
    by simp
  from 1 2 3 show ?thesis by simp
qed

subsection \<open>Failures of the optional steps\<close>






subsection \<open>What a statement adds to the trace\<close>

lemma all_events_append:
  "all_events P h (es1 @ es2) \<longleftrightarrow> all_events P h es1 \<and> all_events P (h @ es1) es2"
  by (induction es1 arbitrary: h) simp_all

lemma all_events_mono:
  "all_events P h es \<Longrightarrow> (\<And>h e. P h e \<Longrightarrow> P' h e) \<Longrightarrow> all_events P' h es"
  by (induction es arbitrary: h) simp_all

lemma all_events_list_all: "all_events (\<lambda>h. P) h es \<longleftrightarrow> list_all P es"
  by (induction es arbitrary: h) simp_all

lemma emitsI:
  assumes "\<And>w r w'. m w = (r, w') \<Longrightarrow>
             (\<exists>es. trace w' = trace w @ es \<and> all_events P (trace w) es)
             \<and> (\<forall>x. r = Inr x \<longrightarrow> Q x)"
  shows "emits P Q m"
  unfolding emits_def by (intro allI impI) (erule assms)

lemma emitsD:
  assumes "emits P Q m" and "m w = (r, w')"
  shows "\<exists>es. trace w' = trace w @ es \<and> all_events P (trace w) es"
    and "\<And>x. r = Inr x \<Longrightarrow> Q x"
proof -
  note * = assms(1) [unfolded emits_def, rule_format, OF assms(2)]
  from * show "\<exists>es. trace w' = trace w @ es \<and> all_events P (trace w) es" by (rule conjunct1)
  from * have "\<forall>x. r = Inr x \<longrightarrow> Q x" by (rule conjunct2)
  then show "\<And>x. r = Inr x \<Longrightarrow> Q x" by (rule allE) (erule mp)
qed

lemma emits_return: "Q x \<Longrightarrow> emits P Q (return x)"
  by (rule emitsI) (auto simp: return_def)

lemma emits_lift: "emits P (\<lambda>x. True) (lift r)"
  by (rule emitsI) (auto simp: lift_def)

lemma emits_bind:
  assumes "emits P Q m" and "\<And>x. Q x \<Longrightarrow> emits P R (k x)"
  shows "emits P R (mbind m k)"
proof (rule emitsI)
  fix w r w'
  assume run: "mbind m k w = (r, w')"
  obtain r1 w1 where m: "m w = (r1, w1)" by (cases "m w")
  from emitsD(1) [OF assms(1) m] obtain es1
    where es1: "trace w1 = trace w @ es1" "all_events P (trace w) es1"
    by (elim exE conjE)
  show "(\<exists>es. trace w' = trace w @ es \<and> all_events P (trace w) es)
      \<and> (\<forall>x. r = Inr x \<longrightarrow> R x)"
  proof (cases r1)
    case (Inl e)
    with run m have "r = Inl e" "w' = w1" by (simp_all add: mbind_def)
    with es1 show ?thesis by simp
  next
    case (Inr x)
    with run m have k: "k x w1 = (r, w')" by (simp add: mbind_def)
    from Inr have "Q x" by (rule emitsD(2) [OF assms(1) m])
    then have kx: "emits P R (k x)" by (rule assms(2))
    from emitsD(1) [OF kx k] obtain es2
      where es2: "trace w' = trace w1 @ es2" "all_events P (trace w1) es2"
      by (elim exE conjE)
    have "trace w' = trace w @ (es1 @ es2) \<and> all_events P (trace w) (es1 @ es2)"
      using es1 es2 by (simp add: all_events_append)
    then have "\<exists>es. trace w' = trace w @ es \<and> all_events P (trace w) es" by (rule exI)
    moreover have "\<forall>y. r = Inr y \<longrightarrow> R y"
      by (intro allI impI) (erule emitsD(2) [OF kx k])
    ultimately show ?thesis by (rule conjI)
  qed
qed

lemma emits_try:
  assumes "emits P Q m" and "\<And>e. emits P Q (h e)"
  shows "emits P Q (try_except m h)"
proof (rule emitsI)
  fix w r w'
  assume run: "try_except m h w = (r, w')"
  obtain r1 w1 where m: "m w = (r1, w1)" by (cases "m w")
  from emitsD(1) [OF assms(1) m] obtain es1
    where es1: "trace w1 = trace w @ es1" "all_events P (trace w) es1"
    by (elim exE conjE)
  show "(\<exists>es. trace w' = trace w @ es \<and> all_events P (trace w) es)
      \<and> (\<forall>x. r = Inr x \<longrightarrow> Q x)"
  proof (cases r1)
    case (Inr x)
    with run m have eq: "r = Inr x" "w' = w1" by (simp_all add: try_except_def)
    from Inr have "Q x" by (rule emitsD(2) [OF assms(1) m])
    with es1 eq show ?thesis by simp
  next
    case (Inl e)
    with run m have k: "h e w1 = (r, w')" by (simp add: try_except_def)
    from emitsD(1) [OF assms(2) k] obtain es2
      where es2: "trace w' = trace w1 @ es2" "all_events P (trace w1) es2"
      by (elim exE conjE)
    have "trace w' = trace w @ (es1 @ es2) \<and> all_events P (trace w) (es1 @ es2)"
      using es1 es2 by (simp add: all_events_append)
    then have "\<exists>es. trace w' = trace w @ es \<and> all_events P (trace w) es" by (rule exI)
    moreover have "\<forall>y. r = Inr y \<longrightarrow> Q y"
      by (intro allI impI) (erule emitsD(2) [OF assms(2) k])
    ultimately show ?thesis by (rule conjI)
  qed
qed

lemma emits_weaken:
  assumes "emits P Q m" and "\<And>h e. P h e \<Longrightarrow> P' h e" and "\<And>x. Q x \<Longrightarrow> Q' x"
  shows "emits P' Q' m"
proof (rule emitsI)
  fix w r w'
  assume m: "m w = (r, w')"
  from emitsD(1) [OF assms(1) m] obtain es
    where es: "trace w' = trace w @ es" "all_events P (trace w) es"
    by (elim exE conjE)
  from es(2) have "all_events P' (trace w) es" by (rule all_events_mono) (erule assms(2))
  with es(1) have "trace w' = trace w @ es \<and> all_events P' (trace w) es" by simp
  then have "\<exists>es. trace w' = trace w @ es \<and> all_events P' (trace w) es" by (rule exI)
  moreover have "\<forall>x. r = Inr x \<longrightarrow> Q' x"
    by (intro allI impI) (rule assms(3), erule emitsD(2) [OF assms(1) m])
  ultimately show "(\<exists>es. trace w' = trace w @ es \<and> all_events P' (trace w) es)
      \<and> (\<forall>x. r = Inr x \<longrightarrow> Q' x)"
    by (rule conjI)
qed

lemma emits_ee_call:
  assumes "\<And>h. P h (ClientCall (Call f args))" and "Q (Call f args)"
  shows "emits P Q (ee_call svc f args)"
proof (rule emitsI)
  fix w r w'
  assume "ee_call svc f args w = (r, w')"
  then have "trace w' = trace w @ [ClientCall (Call f args)]"
    and "\<forall>x. r = Inr x \<longrightarrow> x = Call f args"
    by (auto simp: ee_call_def log_def split: option.splits)
  with assms show "(\<exists>es. trace w' = trace w @ es \<and> all_events P (trace w) es)
      \<and> (\<forall>x. r = Inr x \<longrightarrow> Q x)"
    by auto
qed

lemma emits_bind_call:
  assumes "\<And>h. P h (ClientCall (Call f args))" and "emits P R (k (Call f args))"
  shows "emits P R (mbind (ee_call svc f args) k)"
proof (rule emits_bind [where Q = "\<lambda>x. x = Call f args"])
  show "emits P (\<lambda>x. x = Call f args) (ee_call svc f args)"
    by (rule emits_ee_call) (simp_all add: assms(1))
next
  fix x :: ee
  assume "x = Call f args"
  with assms(2) show "emits P R (k x)" by simp
qed

lemma emits_get_info:
  "(\<And>h. P h (GetInfo obj)) \<Longrightarrow> emits P (\<lambda>x. True) (get_info svc obj)"
  by (rule emitsI) (auto simp: get_info_def log_def)

text \<open>The requests among the events, by kind.\<close>

lemma requests_append: "requests (es1 @ es2) = requests es1 @ requests es2"
  by (induction es1) (simp_all split: option.splits)

lemma no_requests:
  "all_events (\<lambda>h ev. P h ev \<and> \<not> is_request ev) h es \<Longrightarrow> requests es = []"
proof (induction es arbitrary: h)
  case Nil
  then show ?case by simp
next
  case (Cons ev es)
  from Cons.prems have ev: "\<not> is_request ev"
    and es: "all_events (\<lambda>h ev. P h ev \<and> \<not> is_request ev) (h @ [ev]) es"
    by simp_all
  from es have "requests es = []" by (rule Cons.IH)
  with ev show ?case by (cases ev rule: request_of.cases) simp_all
qed

lemma sendsI:
  assumes "\<And>w r w'. m w = (r, w') \<Longrightarrow> \<exists>es. trace w' = trace w @ es \<and> R r (requests es)"
  shows "sends R m"
  unfolding sends_def by (intro allI impI) (erule assms)

lemma sendsD:
  assumes "sends R m" and "m w = (r, w')"
  shows "\<exists>es. trace w' = trace w @ es \<and> R r (requests es)"
  by (rule assms(1) [unfolded sends_def, rule_format, OF assms(2)])

lemma sends_return: "R (Inr x) [] \<Longrightarrow> sends R (return x)"
  by (rule sendsI) (auto simp: return_def)

lemma sends_silent:
  assumes "emits (\<lambda>h ev. P h ev \<and> \<not> is_request ev) Q m"
  shows "sends (\<lambda>r rs. rs = [] \<and> (\<forall>x. r = Inr x \<longrightarrow> Q x)) m"
proof (rule sendsI)
  fix w r w'
  assume m: "m w = (r, w')"
  from emitsD(1) [OF assms m] obtain es
    where es: "trace w' = trace w @ es"
      and "all_events (\<lambda>h ev. P h ev \<and> \<not> is_request ev) (trace w) es"
    by (elim exE conjE)
  then have "requests es = []" by (simp add: no_requests)
  moreover have "\<forall>x. r = Inr x \<longrightarrow> Q x"
    by (intro allI impI) (erule emitsD(2) [OF assms m])
  ultimately have "trace w' = trace w @ es \<and> requests es = [] \<and> (\<forall>x. r = Inr x \<longrightarrow> Q x)"
    using es by simp
  then show "\<exists>es. trace w' = trace w @ es \<and> requests es = [] \<and> (\<forall>x. r = Inr x \<longrightarrow> Q x)"
    by (rule exI)
qed

lemma sends_bind:
  assumes "sends R1 m"
      and "\<And>e rs. R1 (Inl e) rs \<Longrightarrow> R (Inl e) rs"
      and "\<And>x rs. R1 (Inr x) rs \<Longrightarrow> sends (\<lambda>r rs'. R r (rs @ rs')) (k x)"
  shows "sends R (mbind m k)"
proof (rule sendsI)
  fix w r w'
  assume run: "mbind m k w = (r, w')"
  obtain r1 w1 where m: "m w = (r1, w1)" by (cases "m w")
  from sendsD [OF assms(1) m] obtain es1
    where es1: "trace w1 = trace w @ es1" "R1 r1 (requests es1)"
    by (elim exE conjE)
  show "\<exists>es. trace w' = trace w @ es \<and> R r (requests es)"
  proof (cases r1)
    case (Inl e)
    with run m have eq: "r = Inl e" "w' = w1" by (simp_all add: mbind_def)
    from es1(2) Inl have "R (Inl e) (requests es1)" by (simp add: assms(2))
    with es1(1) eq have "trace w' = trace w @ es1 \<and> R r (requests es1)" by simp
    then show ?thesis by (rule exI)
  next
    case (Inr x)
    with run m have k: "k x w1 = (r, w')" by (simp add: mbind_def)
    from es1(2) Inr have "R1 (Inr x) (requests es1)" by simp
    from sendsD [OF assms(3) [OF this] k] obtain es2
      where es2: "trace w' = trace w1 @ es2" "R r (requests es1 @ requests es2)"
      by (elim exE conjE)
    with es1(1) have "trace w' = trace w @ (es1 @ es2) \<and> R r (requests (es1 @ es2))"
      by (simp add: requests_append)
    then show ?thesis by (rule exI)
  qed
qed

lemma sends_try:
  assumes "sends R1 m"
      and "\<And>x rs. R1 (Inr x) rs \<Longrightarrow> R (Inr x) rs"
      and "\<And>e rs. R1 (Inl e) rs \<Longrightarrow> sends (\<lambda>r rs'. R r (rs @ rs')) (h e)"
  shows "sends R (try_except m h)"
proof (rule sendsI)
  fix w r w'
  assume run: "try_except m h w = (r, w')"
  obtain r1 w1 where m: "m w = (r1, w1)" by (cases "m w")
  from sendsD [OF assms(1) m] obtain es1
    where es1: "trace w1 = trace w @ es1" "R1 r1 (requests es1)"
    by (elim exE conjE)
  show "\<exists>es. trace w' = trace w @ es \<and> R r (requests es)"
  proof (cases r1)
    case (Inr x)
    with run m have eq: "r = Inr x" "w' = w1" by (simp_all add: try_except_def)
    from es1(2) Inr have "R (Inr x) (requests es1)" by (simp add: assms(2))
    with es1(1) eq have "trace w' = trace w @ es1 \<and> R r (requests es1)" by simp
    then show ?thesis by (rule exI)
  next
    case (Inl e)
    with run m have k: "h e w1 = (r, w')" by (simp add: try_except_def)
    from es1(2) Inl have "R1 (Inl e) (requests es1)" by simp
    from sendsD [OF assms(3) [OF this] k] obtain es2
      where es2: "trace w' = trace w1 @ es2" "R r (requests es1 @ requests es2)"
      by (elim exE conjE)
    with es1(1) have "trace w' = trace w @ (es1 @ es2) \<and> R r (requests (es1 @ es2))"
      by (simp add: requests_append)
    then show ?thesis by (rule exI)
  qed
qed

subsection \<open>The steps of the handler, over one region\<close>

lemmas quiet_defs = quiet_def steady_def over_region_def

lemma regions_rectangle: "regions (rectangle c) = []"
  by (simp add: rectangle_def)

lemma emits_builds_quiet:
  "emits (\<lambda>h ev. quiet svc roi h ev \<and> \<not> is_request ev) Q m \<Longrightarrow> emits (quiet svc roi) Q m"
  by (erule emits_weaken) simp_all

lemma emits_builds_steady:
  "emits (\<lambda>h ev. quiet svc roi h ev \<and> \<not> is_request ev) Q m
   \<Longrightarrow> emits (\<lambda>h ev. steady svc roi h ev \<and> \<not> is_request ev) Q m"
  by (erule emits_weaken) (simp_all add: quiet_def steady_def)

lemma emits_quiet_steady: "emits (quiet svc roi) Q m \<Longrightarrow> emits (steady svc roi) Q m"
  by (erule emits_weaken) (simp_all add: quiet_def steady_def)

lemma emits_quiet_silent:
  "emits (quiet svc roi) Q m \<Longrightarrow> emits (\<lambda>h ev. \<not> sequence_event ev) Q m"
  by (erule emits_weaken) (simp_all add: quiet_def)

lemma emits_steady_built:
  "emits (\<lambda>h ev. steady svc roi h ev \<and> \<not> is_request ev) Q m \<Longrightarrow> emits (steady svc roi) Q m"
  by (erule emits_weaken) simp_all

lemma yearly_dw_label_builds:
  assumes "regions year = []"
  shows "emits (\<lambda>h ev. quiet svc roi h ev \<and> \<not> is_request ev) (\<lambda>x. set (regions x) = {roi})
           (yearly_dw_label svc year roi)"
  unfolding yearly_dw_label_def
  by (rule emits_bind_call emits_ee_call | simp add: quiet_defs assms)+

lemma yearly_s2_rgb_builds:
  assumes "regions year = []"
  shows "emits (\<lambda>h ev. quiet svc roi h ev \<and> \<not> is_request ev) (\<lambda>x. set (regions x) = {roi})
           (yearly_s2_rgb svc year roi)"
  unfolding yearly_s2_rgb_def
  by (rule emits_bind_call emits_ee_call | simp add: quiet_defs assms)+

lemma visualize_classes_builds:
  assumes "set (regions img) = {roi}"
  shows "emits (\<lambda>h ev. quiet svc roi h ev \<and> \<not> is_request ev) (\<lambda>x. set (regions x) = {roi})
           (visualize_classes svc img)"
  unfolding visualize_classes_def
  by (rule emits_ee_call | simp add: quiet_defs assms CLASS_PALETTE_def)+

lemma make_change_layer_builds:
  "emits (\<lambda>h ev. quiet svc roi h ev \<and> \<not> is_request ev) (\<lambda>x. set (regions x) = {roi})
     (make_change_layer svc yA yB roi)"
  unfolding make_change_layer_def
  by (rule emits_bind [OF yearly_dw_label_builds] emits_bind_call emits_ee_call
      | simp add: quiet_defs)+

lemma image_thumbnail_url_quiet:
  assumes "set (regions img) = {roi}"
  shows "emits (quiet svc roi) (\<lambda>x. True) (image_thumbnail_url svc img roi d)"
proof (rule emitsI)
  fix w r w'
  assume "image_thumbnail_url svc img roi d w = (r, w')"
  with assms
  show "(\<exists>es. trace w' = trace w @ es \<and> all_events (quiet svc roi) (trace w) es)
      \<and> (\<forall>x. r = Inr x \<longrightarrow> True)"
    by (auto simp: image_thumbnail_url_def mbind_def ee_call_def get_info_def lift_def
          get_thumb_url_def log_def quiet_defs looked_up_def butlast_append
        split: option.splits sum.splits)
qed

lemma thumbnail_urls_quiet:
  "emits (quiet svc roi) (\<lambda>x. True) (thumbnail_urls svc yearA yearB roi d)"
  unfolding thumbnail_urls_def
  by (rule emits_bind [OF emits_builds_quiet [OF yearly_dw_label_builds]]
        emits_bind [OF emits_builds_quiet [OF visualize_classes_builds]]
        emits_bind [OF emits_builds_quiet [OF yearly_s2_rgb_builds]]
        emits_bind [OF emits_builds_quiet [OF make_change_layer_builds]]
        emits_bind [OF image_thumbnail_url_quiet] emits_return
      | simp)+

lemma histogram_request_quiet:
  "emits (quiet svc roi) (\<lambda>x. True) (histogram_request svc yearA roi)"
  unfolding histogram_request_def
  by (rule emits_bind [OF emits_builds_quiet [OF yearly_dw_label_builds]]
        emits_bind_call emits_get_info
      | simp add: quiet_defs)+

lemma histogram_yearA_quiet:
  "emits (quiet svc roi) (\<lambda>x. True) (histogram_yearA svc yearA roi)"
  unfolding histogram_yearA_def
  by (rule emits_try histogram_request_quiet emits_return | simp)+

lemma map_year_builds:
  assumes "regions y0 = []"
  shows "emits (\<lambda>h ev. steady svc roi h ev \<and> \<not> is_request ev) (\<lambda>x. set (regions x) = {roi})
           (map_year svc roi y0)"
  unfolding map_year_def
  by (rule emits_bind [OF emits_builds_steady [OF yearly_dw_label_builds]]
        emits_bind [OF emits_builds_steady [OF visualize_classes_builds]]
        emits_bind_call emits_ee_call
      | simp add: quiet_defs assms)+

lemma build_vis_collection_range_builds:
  "emits (\<lambda>h ev. steady svc roi h ev \<and> \<not> is_request ev) (\<lambda>x. set (regions x) = {roi})
     (build_vis_collection_range svc y_start y_end roi)"
  unfolding build_vis_collection_range_def
  by (rule emits_bind [OF map_year_builds] emits_bind_call emits_ee_call
      | simp add: quiet_defs)+

lemma collection_video_thumb_url_steady:
  assumes "set (regions coll) = {roi}"
  shows "emits (steady svc roi) (\<lambda>x. True) (collection_video_thumb_url svc coll roi fps d)"
proof (rule emitsI)
  fix w r w'
  assume "collection_video_thumb_url svc coll roi fps d w = (r, w')"
  with assms
  show "(\<exists>es. trace w' = trace w @ es \<and> all_events (steady svc roi) (trace w) es)
      \<and> (\<forall>x. r = Inr x \<longrightarrow> True)"
    by (auto simp: collection_video_thumb_url_def mbind_def ee_call_def get_info_def lift_def
          get_video_thumb_url_def log_def quiet_defs looked_up_def butlast_append
        split: option.splits sum.splits)
qed

lemma video_url_steady:
  "emits (steady svc roi) (\<lambda>x. True) (video_url svc v yearA yearB roi fps d)"
proof (cases v)
  case False
  then show ?thesis by (simp add: video_url_def emits_return)
next
  case True
  have "emits (steady svc roi) (\<lambda>x. True)
          (mbind (build_vis_collection_range svc yearA yearB roi) (\<lambda>vis_coll.
             try_except
               (mbind (collection_video_thumb_url svc vis_coll roi fps d)
                  (\<lambda>url. return (PStr url)))
               (\<lambda>e. return PNone)))"
    by (rule emits_bind [OF emits_steady_built [OF build_vis_collection_range_builds]] emits_try
          emits_bind [OF collection_video_thumb_url_steady] emits_return
        | simp)+
  with True show ?thesis by (simp add: video_url_def)
qed

lemma video_url_not_requested:
  "emits P (\<lambda>x. x = PNone) (video_url svc False yearA yearB roi fps d)"
  by (simp add: video_url_def emits_return)

lemma initialize_quiet:
  "emits (\<lambda>h ev. quiet svc roi h ev \<and> \<not> is_request ev) (\<lambda>u. True)
     (initialize_ee_from_env svc)"
  by (rule emitsI)
     (auto simp: initialize_ee_from_env_def Let_def log_def quiet_defs
           split: if_splits option.splits sum.splits)

lemma get_roi_from_params_Rectangle:
  "get_roi_from_params svc params = Rectangle svc RECT_BOUNDS
   \<or> (\<exists>b. params ''bounds'' = Some b \<and> get_roi_from_params svc params = Rectangle svc b)"
  by (simp add: get_roi_from_params_def split: option.splits)

lemma get_roi_from_params_emits:
  assumes "\<And>h c. P h (ClientCall (rectangle c))"
  shows "emits P (\<lambda>roi. True) (get_roi_from_params svc params)"
proof -
  have *: "emits P (\<lambda>roi. True) (Rectangle svc c)" for c
    unfolding Rectangle_def
    by (rule emits_ee_call) (use assms [of _ c] in \<open>simp_all add: rectangle_def\<close>)
  from get_roi_from_params_Rectangle [of svc params] show ?thesis
    by (auto simp: *)
qed

subsection \<open>The animated sequence, not requested\<close>

lemma read_request_silent:
  "emits (\<lambda>h ev. \<not> sequence_event ev)
     (\<lambda>t. case t of (yA, yB, roi, d, v, f) \<Rightarrow>
        v = truthy (dict_get params ''video'' (PBool False)))
     (read_request svc params)"
  unfolding read_request_def
  by (rule emits_bind [OF emits_quiet_silent [OF emits_builds_quiet [OF initialize_quiet]]]
        emits_bind [OF emits_lift] emits_bind [OF get_roi_from_params_emits] emits_return
      | simp add: rectangle_def)+

lemma after_request_silent:
  "emits (\<lambda>h ev. \<not> sequence_event ev) (\<lambda>res. py_getitem res ''video_url'' = Inr PNone)
     (mbind (thumbnail_urls svc yA yB roi d) (\<lambda>urls.
      mbind (histogram_yearA svc yA roi) (\<lambda>freqA.
      mbind (video_url svc False yA yB roi f d) (\<lambda>video.
      return (result_object yA yB urls freqA video)))))"
  by (rule emits_bind [OF emits_quiet_silent [OF thumbnail_urls_quiet]]
        emits_bind [OF emits_quiet_silent [OF histogram_yearA_quiet]]
        emits_bind [OF video_url_not_requested] emits_return
      | simp add: result_object_def)+

text \<open>
  C9. When the request has no \<open>video\<close> key, or has it set to false, a run of
  \<open>run_gee_task\<close> adds to the trace no event of the animated sequence (no list of years,
  no mapping over it, no collection made of a computed list, no animated-thumbnail
  request), whether it returns or raises; and a result it returns has \<open>video_url\<close> null.
\<close>

theorem video_not_requested:
  assumes "params ''video'' = None \<or> params ''video'' = Some (PBool False)"
      and "run_gee_task svc params w = (r, w')"
  shows "(\<exists>es. trace w' = trace w @ es \<and> list_all (\<lambda>ev. \<not> sequence_event ev) es)
       \<and> (\<forall>res. r = Inr res \<longrightarrow> py_getitem res ''video_url'' = Inr PNone)"
proof -
  from assms(1) have v: "\<not> truthy (dict_get params ''video'' (PBool False))"
    by (auto simp: dict_get_def)
  have e: "emits (\<lambda>h ev. \<not> sequence_event ev) (\<lambda>res. py_getitem res ''video_url'' = Inr PNone)
        (run_gee_task svc params)"
    unfolding run_gee_task_def
  proof (rule emits_bind [OF read_request_silent])
    fix t :: "int \<times> int \<times> ee \<times> int \<times> bool \<times> int"
    assume t: "case t of (yA, yB, roi, d, v, f) \<Rightarrow>
        v = truthy (dict_get params ''video'' (PBool False))"
    obtain yA yB roi d v f where eq: "t = (yA, yB, roi, d, v, f)"
      by (cases t rule: prod_cases6)
    from t v have "v = False" by (simp add: eq)
    then show "emits (\<lambda>h ev. \<not> sequence_event ev)
        (\<lambda>res. py_getitem res ''video_url'' = Inr PNone)
        (case t of (yearA, yearB, roi, thumb_dims, produce_video, video_fps) \<Rightarrow>
           mbind (thumbnail_urls svc yearA yearB roi thumb_dims) (\<lambda>urls.
           mbind (histogram_yearA svc yearA roi) (\<lambda>freqA.
           mbind (video_url svc produce_video yearA yearB roi video_fps thumb_dims) (\<lambda>video.
           return (result_object yearA yearB urls freqA video)))))"
      by (simp add: eq after_request_silent)
  qed
  have 1: "\<exists>es. trace w' = trace w @ es \<and> list_all (\<lambda>ev. \<not> sequence_event ev) es"
    using emitsD(1) [OF e assms(2)] by (simp add: all_events_list_all)
  have 2: "\<forall>res. r = Inr res \<longrightarrow> py_getitem res ''video_url'' = Inr PNone"
    by (intro allI impI) (erule emitsD(2) [OF e assms(2)])
  from 1 2 show ?thesis by (rule conjI)
qed

theorem video_not_requested_witness:
  "list_all (\<lambda>ev. \<not> sequence_event ev)
     (trace (snd (run_gee_task ok_service swapped_request idle_world)))
   \<and> py_getitem (result_object 2020 2024 ok_urls ok_info PNone) ''video_url'' = Inr PNone"
proof -
  have v: "swapped_request ''video'' = None \<or> swapped_request ''video'' = Some (PBool False)"
    by (simp add: swapped_request_def)
  have run: "run_gee_task ok_service swapped_request idle_world
      = (Inr (result_object 2020 2024 ok_urls ok_info PNone),
         snd (run_gee_task ok_service swapped_request idle_world))"
    using ok_run by (metis prod.collapse)
  from video_not_requested [OF v run] show ?thesis
    by (auto simp: idle_world_def)
qed

subsection \<open>One region for the whole run\<close>

lemma mbind_run: "m w = (Inr x, w1) \<Longrightarrow> mbind m k w = k x w1"
  by (simp add: mbind_def)

lemma mbind_raise: "m w = (Inl e, w1) \<Longrightarrow> mbind m k w = (Inl e, w1)"
  by (simp add: mbind_def)

lemma steady_filter: "all_events (steady svc roi) h es \<Longrightarrow> filter constructs_region es = []"
  by (induction es arbitrary: h) (auto simp: steady_def)

lemma steady_over:
  "all_events (steady svc roi) h es \<Longrightarrow> all_events (over_region svc roi) h es"
  by (erule all_events_mono) (simp add: steady_def)

lemma Rectangle_trace:
  assumes "Rectangle svc c w = (r, w')"
  shows "trace w' = trace w @ [ClientCall (rectangle c)]" and "\<And>x. r = Inr x \<Longrightarrow> x = rectangle c"
  using assms
  by (auto simp: Rectangle_def rectangle_def ee_call_def log_def split: option.splits)

lemma sends_bind_call:
  assumes "\<And>e. R (Inl e) []" and "sends R (k (Call f args))"
  shows "sends R (mbind (ee_call svc f args) k)"
proof (rule sends_bind [where ?R1.0 = "\<lambda>r rs. rs = [] \<and> (\<forall>x. r = Inr x \<longrightarrow> x = Call f args)"])
  show "sends (\<lambda>r rs. rs = [] \<and> (\<forall>x. r = Inr x \<longrightarrow> x = Call f args)) (ee_call svc f args)"
    by (rule sendsI) (auto simp: ee_call_def log_def split: option.splits)
next
  fix e :: exn and rs :: "request list"
  assume "rs = [] \<and> (\<forall>x. (Inl e :: exn + ee) = Inr x \<longrightarrow> x = Call f args)"
  then show "R (Inl e) rs" by (simp add: assms(1))
next
  fix x :: ee and rs :: "request list"
  assume "rs = [] \<and> (\<forall>xa. (Inr x :: exn + ee) = Inr xa \<longrightarrow> xa = Call f args)"
  with assms(2) show "sends (\<lambda>r rs'. R r (rs @ rs')) (k x)" by simp
qed

lemma sends_get_info:
  assumes "\<And>r. R r (requests [GetInfo obj])"
  shows "sends R (get_info svc obj)"
proof (rule sendsI)
  fix w r w'
  assume "get_info svc obj w = (r, w')"
  then have "trace w' = trace w @ [GetInfo obj]" by (auto simp: get_info_def log_def)
  with assms [of r] have "trace w' = trace w @ [GetInfo obj] \<and> R r (requests [GetInfo obj])"
    by simp
  then show "\<exists>es. trace w' = trace w @ es \<and> R r (requests es)" by (rule exI)
qed

lemma image_thumbnail_url_sends:
  "sends (\<lambda>r rs. \<forall>x. r = Inr x \<longrightarrow> rs = [Lookup, Thumbnail])
     (image_thumbnail_url svc img roi d)"
proof (rule sendsI)
  fix w r w'
  assume "image_thumbnail_url svc img roi d w = (r, w')"
  then show "\<exists>es. trace w' = trace w @ es \<and> (\<forall>x. r = Inr x \<longrightarrow> requests es = [Lookup, Thumbnail])"
    by (auto simp: image_thumbnail_url_def mbind_def ee_call_def get_info_def lift_def
          get_thumb_url_def log_def
        split: option.splits sum.splits)
qed

lemma thumbnail_urls_sends:
  "sends (\<lambda>r rs. \<forall>x. r = Inr x \<longrightarrow> rs = concat (replicate 5 [Lookup, Thumbnail]))
     (thumbnail_urls svc yA yB roi d)"
  unfolding thumbnail_urls_def
  by (rule sends_bind [OF sends_silent [OF yearly_dw_label_builds]]
        sends_bind [OF sends_silent [OF visualize_classes_builds]]
        sends_bind [OF sends_silent [OF yearly_s2_rgb_builds]]
        sends_bind [OF sends_silent [OF make_change_layer_builds]]
        sends_bind [OF image_thumbnail_url_sends] sends_return
      | simp add: numeral_eq_Suc)+

lemma histogram_request_sends:
  "sends (\<lambda>r rs. (rs = [] \<or> rs = [Reduction]) \<and> (\<forall>x. r = Inr x \<longrightarrow> rs = [Reduction]))
     (histogram_request svc yA roi)"
  unfolding histogram_request_def
  by (rule sends_bind [OF sends_silent [OF yearly_dw_label_builds]] sends_bind_call
        sends_get_info
      | simp)+

lemma histogram_yearA_sends:
  "sends (\<lambda>r rs. \<forall>x. r = Inr x \<longrightarrow>
       rs = [Reduction] \<or> rs = [] \<and> (\<exists>msg. x = PDict [(''error'', PStr msg)]))
     (histogram_yearA svc yA roi)"
  unfolding histogram_yearA_def
  apply (rule sends_try [OF histogram_request_sends])
   apply simp
  apply (rule sends_return)
  apply auto
  done

lemma collection_video_thumb_url_sends:
  "sends (\<lambda>r rs. (rs = [] \<or> rs = [Lookup] \<or> rs = [Lookup, Animation])
       \<and> (\<forall>x. r = Inr x \<longrightarrow> rs = [Lookup, Animation]))
     (collection_video_thumb_url svc coll roi f d)"
proof (rule sendsI)
  fix w r w'
  assume "collection_video_thumb_url svc coll roi f d w = (r, w')"
  then show "\<exists>es. trace w' = trace w @ es
      \<and> (requests es = [] \<or> requests es = [Lookup] \<or> requests es = [Lookup, Animation])
      \<and> (\<forall>x. r = Inr x \<longrightarrow> requests es = [Lookup, Animation])"
    by (auto simp: collection_video_thumb_url_def mbind_def ee_call_def get_info_def lift_def
          get_video_thumb_url_def log_def
        split: option.splits sum.splits)
qed

lemma video_url_sends:
  "sends (\<lambda>r rs. \<forall>x. r = Inr x \<longrightarrow>
       (rs = [] \<or> rs = [Lookup] \<or> rs = [Lookup, Animation])
       \<and> (\<not> v \<longrightarrow> rs = [])
       \<and> (rs \<noteq> [Lookup, Animation] \<longrightarrow> x = PNone))
     (video_url svc v yA yB roi f d)"
proof (cases v)
  case False
  then show ?thesis by (simp add: video_url_def sends_return)
next
  case True
  have request: "sends (\<lambda>r rs. (rs = [] \<or> rs = [Lookup] \<or> rs = [Lookup, Animation])
       \<and> (\<forall>x. r = Inr x \<longrightarrow> rs = [Lookup, Animation]))
     (mbind (collection_video_thumb_url svc coll roi f d) (\<lambda>url. return (PStr url)))"
    for coll
    by (rule sends_bind [OF collection_video_thumb_url_sends] sends_return | simp)+
  have "sends (\<lambda>r rs. \<forall>x. r = Inr x \<longrightarrow>
       (rs = [] \<or> rs = [Lookup] \<or> rs = [Lookup, Animation])
       \<and> (rs \<noteq> [Lookup, Animation] \<longrightarrow> x = PNone))
     (mbind (build_vis_collection_range svc yA yB roi) (\<lambda>vis_coll.
        try_except
          (mbind (collection_video_thumb_url svc vis_coll roi f d) (\<lambda>url. return (PStr url)))
          (\<lambda>e. return PNone)))"
    apply (rule sends_bind [OF sends_silent [OF build_vis_collection_range_builds]])
     apply simp
    apply (rule sends_try [OF request])
     apply (auto)[1]
    apply (rule sends_return)
    apply auto
    done
  with True show ?thesis by (simp add: video_url_def)
qed

lemma after_request_sends:
  "sends (\<lambda>r rs. \<forall>res. r = Inr res \<longrightarrow> request_plan v res rs)
     (mbind (thumbnail_urls svc yA yB roi d) (\<lambda>urls.
      mbind (histogram_yearA svc yA roi) (\<lambda>freqA.
      mbind (video_url svc v yA yB roi f d) (\<lambda>video.
      return (result_object yA yB urls freqA video)))))"
  apply (rule sends_bind [OF thumbnail_urls_sends])
   apply simp
  apply (rule sends_bind [OF histogram_yearA_sends])
   apply simp
  apply (rule sends_bind [OF video_url_sends])
   apply simp
  apply (rule sends_return)
  apply (auto simp: request_plan_def result_object_def)
  done

lemma after_request_steady:
  "emits (steady svc roi) (\<lambda>x. True)
     (mbind (thumbnail_urls svc yA yB roi d) (\<lambda>urls.
      mbind (histogram_yearA svc yA roi) (\<lambda>freqA.
      mbind (video_url svc v yA yB roi f d) (\<lambda>video.
      return (result_object yA yB urls freqA video)))))"
  by (rule emits_bind [OF emits_quiet_steady [OF thumbnail_urls_quiet]]
        emits_bind [OF emits_quiet_steady [OF histogram_yearA_quiet]]
        emits_bind [OF video_url_steady] emits_return
      | simp)+

lemma read_request_region:
  assumes "read_request svc params w = (r, w1)"
  shows "\<exists>es. trace w1 = trace w @ es \<and> length (filter constructs_region es) \<le> 1
     \<and> requests es = []
     \<and> (\<forall>yA yB roi d v f. r = Inr (yA, yB, roi, d, v, f) \<longrightarrow>
          filter constructs_region es = [ClientCall roi]
          \<and> all_events (over_region svc roi) (trace w) es)"
proof -
  obtain r0 w0 where i: "initialize_ee_from_env svc w = (r0, w0)"
    by (cases "initialize_ee_from_env svc w")
  from get_roi_from_params_Rectangle [of svc params]
  obtain c where g: "get_roi_from_params svc params = Rectangle svc c"
    by auto
  obtain r2 w2 where R: "Rectangle svc c w0 = (r2, w2)"
    by (cases "Rectangle svc c w0")
  from emitsD(1) [OF initialize_quiet [where roi = "rectangle c"] i]
  obtain es0 where es0: "trace w0 = trace w @ es0"
    and built: "all_events (\<lambda>h ev. quiet svc (rectangle c) h ev \<and> \<not> is_request ev) (trace w) es0"
    by (elim exE conjE)
  from built have none: "requests es0 = []" by (rule no_requests)
  from built have st: "all_events (steady svc (rectangle c)) (trace w) es0"
    by (rule all_events_mono) (simp add: quiet_def steady_def)
  note t2 = Rectangle_trace(1) [OF R]
  have shape: "(w1 = w0 \<and> (\<forall>t. r \<noteq> Inr t))
      \<or> (w1 = w2 \<and> (\<forall>yA yB roi d v f. r = Inr (yA, yB, roi, d, v, f) \<longrightarrow> roi = rectangle c))"
    using assms i R Rectangle_trace(2) [OF R] unfolding read_request_def g
    by (auto simp: mbind_def lift_def return_def split: sum.splits)
  from shape show ?thesis
  proof (elim disjE conjE)
    assume "w1 = w0" and "\<forall>t. r \<noteq> Inr t"
    with es0 none show ?thesis
      by (intro exI [where x = es0]) (simp add: steady_filter [OF st])
  next
    assume w: "w1 = w2"
      and roi: "\<forall>yA yB roi d v f. r = Inr (yA, yB, roi, d, v, f) \<longrightarrow> roi = rectangle c"
    have 1: "trace w1 = trace w @ (es0 @ [ClientCall (rectangle c)])"
      using w t2 es0 by simp
    have 2: "filter constructs_region (es0 @ [ClientCall (rectangle c)])
        = [ClientCall (rectangle c)]"
      using steady_filter [OF st] by (simp add: rectangle_def)
    have 3: "all_events (over_region svc (rectangle c)) (trace w)
        (es0 @ [ClientCall (rectangle c)])"
      using steady_over [OF st]
      by (simp add: all_events_append over_region_def regions_rectangle)
    have 4: "requests (es0 @ [ClientCall (rectangle c)]) = []"
      using none by (simp add: requests_append)
    from 1 2 3 4 roi show ?thesis
      by (intro exI [where x = "es0 @ [ClientCall (rectangle c)]"]) auto
  qed
qed

text \<open>
  C8. In a run of \<open>run_gee_task\<close> at most one region is constructed. When the request is
  read through, exactly one is, the \<open>roi\<close> the handler holds, and everything the run does
  after is over it: every object the client library builds or is asked about is computed
  over no other geometry, every request is computed over \<open>roi\<close>, and every thumbnail
  request is sent with the bounds of \<open>roi\<close> as the service gave them just before. A run
  that returns has sent the five thumbnail requests, each after the look-up of the
  bounds of \<open>roi\<close>, the histogram reduction and, when a video is asked for, the look-up
  and the animated-thumbnail request, up to where a step that is allowed to fail failed.
\<close>

theorem region_resolved_once:
  assumes "run_gee_task svc params w = (r, w')"
  shows "\<exists>es. trace w' = trace w @ es \<and> length (filter constructs_region es) \<le> 1
    \<and> (\<forall>yA yB roi d v f w1.
          read_request svc params w = (Inr (yA, yB, roi, d, v, f), w1) \<longrightarrow>
          filter constructs_region es = [ClientCall roi]
          \<and> all_events (over_region svc roi) (trace w) es
          \<and> (\<forall>res. r = Inr res \<longrightarrow> request_plan v res (requests es)))"
proof -
  obtain r1 w1 where rd: "read_request svc params w = (r1, w1)"
    by (cases "read_request svc params w")
  from read_request_region [OF rd] obtain es1
    where es1: "trace w1 = trace w @ es1" "length (filter constructs_region es1) \<le> 1"
      and none: "requests es1 = []"
      and got: "\<And>yA yB roi d v f. r1 = Inr (yA, yB, roi, d, v, f) \<Longrightarrow>
        filter constructs_region es1 = [ClientCall roi]
        \<and> all_events (over_region svc roi) (trace w) es1"
    by (elim exE conjE) simp
  show ?thesis
  proof (cases r1)
    case (Inl e)
    with rd have "run_gee_task svc params w = (Inl e, w1)"
      unfolding run_gee_task_def
      by (simp add: mbind_raise [where m = "read_request svc params" and w = w])
    with assms have "w' = w1" by simp
    with es1 rd Inl show ?thesis
      by (intro exI [where x = es1]) simp
  next
    case (Inr t)
    obtain yA yB roi d v f where t: "t = (yA, yB, roi, d, v, f)"
      by (cases t rule: prod_cases6)
    from got [of yA yB roi d v f] Inr t
    have c1: "filter constructs_region es1 = [ClientCall roi]"
      and o1: "all_events (over_region svc roi) (trace w) es1"
      by simp_all
    from rd Inr t have rd': "read_request svc params w = (Inr (yA, yB, roi, d, v, f), w1)"
      by simp
    have "run_gee_task svc params w =
       (mbind (thumbnail_urls svc yA yB roi d) (\<lambda>urls.
        mbind (histogram_yearA svc yA roi) (\<lambda>freqA.
        mbind (video_url svc v yA yB roi f d) (\<lambda>video.
        return (result_object yA yB urls freqA video))))) w1"
      unfolding run_gee_task_def
      by (simp add: mbind_run [where m = "read_request svc params" and w = w, OF rd'])
    with assms have rest:
      "(mbind (thumbnail_urls svc yA yB roi d) (\<lambda>urls.
        mbind (histogram_yearA svc yA roi) (\<lambda>freqA.
        mbind (video_url svc v yA yB roi f d) (\<lambda>video.
        return (result_object yA yB urls freqA video))))) w1 = (r, w')"
      by simp
    from emitsD(1) [OF after_request_steady rest] obtain es2
      where es2: "trace w' = trace w1 @ es2" "all_events (steady svc roi) (trace w1) es2"
      by (elim exE conjE)
    from sendsD [OF after_request_sends rest] obtain es3
      where es3: "trace w' = trace w1 @ es3"
        and plan: "\<forall>res. r = Inr res \<longrightarrow> request_plan v res (requests es3)"
      by (elim exE conjE)
    from es2(1) es3 have "es3 = es2" by simp
    with plan have plan2: "\<forall>res. r = Inr res \<longrightarrow> request_plan v res (requests es2)"
      by simp
    have 1: "trace w' = trace w @ (es1 @ es2)"
      using es1(1) es2(1) by simp
    have 2: "filter constructs_region (es1 @ es2) = [ClientCall roi]"
      using c1 steady_filter [OF es2(2)] by simp
    have 3: "all_events (over_region svc roi) (trace w) (es1 @ es2)"
      using o1 steady_over [OF es2(2)] es1(1) by (simp add: all_events_append)
    have 4: "\<forall>res. r = Inr res \<longrightarrow> request_plan v res (requests (es1 @ es2))"
      using plan2 none by (simp add: requests_append)
    from 1 2 3 4 rd' show ?thesis
      by (intro exI [where x = "es1 @ es2"]) simp
  qed
qed

theorem region_resolved_once_witness:
  "filter constructs_region (trace (snd (run_gee_task ok_service video_request idle_world)))
     = [ClientCall (rectangle RECT_BOUNDS)]
   \<and> all_events (over_region ok_service (rectangle RECT_BOUNDS)) []
       (trace (snd (run_gee_task ok_service video_request idle_world)))
   \<and> requests (trace (snd (run_gee_task ok_service video_request idle_world)))
     = [Lookup, Thumbnail, Lookup, Thumbnail, Lookup, Thumbnail, Lookup, Thumbnail,
        Lookup, Thumbnail, Reduction, Lookup, Animation]"
proof -
  have run: "run_gee_task ok_service video_request idle_world
      = (Inr (result_object 2020 2024 ok_urls ok_info (PStr ''https://ee/video'')),
         snd (run_gee_task ok_service video_request idle_world))"
    using video_run by (metis prod.collapse)
  have rd: "read_request ok_service video_request idle_world
      = (Inr (2020, 2024, rectangle RECT_BOUNDS, 768, True, 1),
         snd (read_request ok_service video_request idle_world))"
    using video_read by (metis prod.collapse)
  from region_resolved_once [OF run] obtain es
    where es: "trace (snd (run_gee_task ok_service video_request idle_world))
        = trace idle_world @ es"
      and every: "\<forall>yA yB roi d v f w1.
          read_request ok_service video_request idle_world = (Inr (yA, yB, roi, d, v, f), w1)
          \<longrightarrow> filter constructs_region es = [ClientCall roi]
            \<and> all_events (over_region ok_service roi) (trace idle_world) es
            \<and> (\<forall>res. Inr (result_object 2020 2024 ok_urls ok_info (PStr ''https://ee/video''))
                      = (Inr res :: exn + pyval)
                  \<longrightarrow> request_plan v res (requests es))"
    by (elim exE conjE)
  from es have eq: "es = trace (snd (run_gee_task ok_service video_request idle_world))"
    by (simp add: idle_world_def)
  from every [rule_format, OF rd]
  have "filter constructs_region es = [ClientCall (rectangle RECT_BOUNDS)]"
    and "all_events (over_region ok_service (rectangle RECT_BOUNDS)) [] es"
    and "request_plan True (result_object 2020 2024 ok_urls ok_info (PStr ''https://ee/video''))
           (requests es)"
    by (simp_all add: idle_world_def)
  then show ?thesis
    unfolding eq [symmetric]
    by (auto simp: request_plan_def result_object_def ok_info_def numeral_eq_Suc)
qed

end
